theory Spec2Isabelle
  imports Complex_Main "HOL-Library.AList" "HOL-Library.Multiset" "HOL-Library.Monad_Syntax"
    "HOL-Library.Product_Lexorder"
begin

section \<open>Python floats\<close>

text \<open>
  A Python \<^verbatim>\<open>float\<close> is an IEEE 754 double: a finite value, carried as the real
  number it denotes, an infinity or a nan. The sign of a zero is not kept: no operation of
  the program tells the two zeros apart.
\<close>

datatype pyfloat = Fin real | PInf | NInf | NaN

definition pow2 :: "int \<Rightarrow> real" where
  "pow2 e = (if 0 \<le> e then 2 ^ nat e else 1 / 2 ^ nat (- e))"

text \<open>
  The binary exponent of a positive number, found by bisection: the largest \<open>e\<close> between
  \<open>-1075\<close> and \<open>3020\<close> with \<open>2 ^ e \<le> a\<close>. Doubles end below \<open>2 ^ 1024\<close>.
\<close>

definition ilog2 :: "real \<Rightarrow> int" where
  "ilog2 a =
     fold (\<lambda>w e. if pow2 (e + w) \<le> a then e + w else e)
       [2048, 1024, 512, 256, 128, 64, 32, 16, 8, 4, 2, 1] (- 1075)"

definition round_half_even :: "real \<Rightarrow> int" where
  "round_half_even y =
     (let n = \<lfloor>y\<rfloor>; d = y - of_int n
      in if d < 1 / 2 then n
         else if 1 / 2 < d then n + 1
         else if even n then n else n + 1)"

text \<open>
  The exponent of the last bit of a double of magnitude \<open>a\<close> (53 bits of precision; the
  subnormal doubles share the exponent \<open>-1074\<close>), and the nearest multiple of \<open>2 ^ e\<close>,
  a tie going to the even one.
\<close>

definition expo :: "real \<Rightarrow> int" where
  "expo a = max (ilog2 a - 52) (- 1074)"

definition grid :: "int \<Rightarrow> real \<Rightarrow> real" where
  "grid e a = of_int (round_half_even (a / pow2 e)) * pow2 e"

text \<open>
  Rounding to the nearest double, ties to even; a result of magnitude \<open>2 ^ 1024\<close> or more
  is an infinity.
\<close>

definition fl :: "real \<Rightarrow> pyfloat" where
  "fl q =
     (let r = grid (expo \<bar>q\<bar>) \<bar>q\<bar>
      in if pow2 1024 \<le> r then (if 0 < q then PInf else NInf)
         else Fin (if q < 0 then - r else r))"

text \<open>
  Comparison: a nan compares false with everything. \<open>rank\<close> places the values that are
  not nan in their order.
\<close>

fun rank :: "pyfloat \<Rightarrow> int \<times> real" where
  "rank (Fin q) = (0, q)"
| "rank PInf = (1, 0)"
| "rank NInf = (- 1, 0)"
| "rank NaN = (2, 0)"

definition flt :: "pyfloat \<Rightarrow> pyfloat \<Rightarrow> bool" where
  "flt a b \<longleftrightarrow> a \<noteq> NaN \<and> b \<noteq> NaN \<and> rank a < rank b"

definition fle :: "pyfloat \<Rightarrow> pyfloat \<Rightarrow> bool" where
  "fle a b \<longleftrightarrow> a \<noteq> NaN \<and> b \<noteq> NaN \<and> rank a \<le> rank b"

datatype error =
    HTTPException nat string
  | ValidationError
  | TypeError
  | ZeroDivisionError
  | OverflowError

text \<open>The quotient of IEEE 754, for a divisor that is not zero.\<close>

fun ieee_div :: "pyfloat \<Rightarrow> pyfloat \<Rightarrow> pyfloat" where
  "ieee_div NaN b = NaN"
| "ieee_div a NaN = NaN"
| "ieee_div (Fin x) (Fin y) = fl (x / y)"
| "ieee_div (Fin x) b = Fin 0"
| "ieee_div PInf (Fin y) = (if 0 < y then PInf else NInf)"
| "ieee_div NInf (Fin y) = (if 0 < y then NInf else PInf)"
| "ieee_div a b = NaN"

text \<open>\<^verbatim>\<open>a / b\<close> on floats: a zero divisor raises; overflow gives an infinity.\<close>

definition float_truediv :: "pyfloat \<Rightarrow> pyfloat \<Rightarrow> error + pyfloat" where
  "float_truediv a b = (if b = Fin 0 then Inl ZeroDivisionError else Inr (ieee_div a b))"

text \<open>
  \<^verbatim>\<open>a ** 2\<close> on a float. The interpreter settles the special cases itself: the
  square of a nan is a nan, of an infinity the positive infinity, of a zero zero and of
  one one. Otherwise it calls the C library's \<^verbatim>\<open>pow\<close> on the magnitude; an infinite
  result raises, any other is returned, an underflow to zero included. The library's
  function \<open>P\<close> is a parameter of the model: a library need not round \<^verbatim>\<open>pow\<close>
  correctly, and libraries in use do not.
\<close>

definition float_pow2 :: "(real \<Rightarrow> pyfloat) \<Rightarrow> pyfloat \<Rightarrow> error + pyfloat" where
  "float_pow2 P a =
     (case a of
        Fin x \<Rightarrow>
          (if x = 0 then Inr (Fin 0)
           else if \<bar>x\<bar> = 1 then Inr (Fin 1)
           else (case P \<bar>x\<bar> of
                   Fin r \<Rightarrow> Inr (Fin r)
                 | NaN \<Rightarrow> Inr NaN
                 | _ \<Rightarrow> Inl OverflowError))
      | NaN \<Rightarrow> Inr NaN
      | _ \<Rightarrow> Inr PInf)"

text \<open>
  \<^verbatim>\<open>round(a, 2)\<close>: nans and infinities round to themselves; a finite value is rounded
  to two decimals from its exact binary value, a tie going to the even digit, and the
  decimal is converted back to the nearest double.
\<close>

definition float_round2 :: "pyfloat \<Rightarrow> error + pyfloat" where
  "float_round2 a =
     (case a of
        Fin q \<Rightarrow>
          (case fl (of_int (round_half_even (q * 100)) / 100) of
             Fin r \<Rightarrow> Inr (Fin r)
           | _ \<Rightarrow> Inl OverflowError)
      | _ \<Rightarrow> Inr a)"

section \<open>JSON values, documents and the persisted file\<close>

text \<open>
  The values that \<^verbatim>\<open>json.load\<close> produces and \<^verbatim>\<open>json.dump\<close> writes. A Python
  \<^verbatim>\<open>dict\<close> with string keys is an association list in insertion order. The encoding
  and decoding of JSON text is taken as the identity on these values.
\<close>

datatype jvalue =
    JNull
  | JBool bool
  | JInt int
  | JFloat pyfloat
  | JStr string
  | JArr "jvalue list"
  | JObj "(string \<times> jvalue) list"

type_synonym doc = "(string \<times> jvalue) list"

type_synonym store = "(string \<times> doc) list"

text \<open>The file at \<^verbatim>\<open>FILE_PATH\<close>: \<open>None\<close> when it does not exist, else the document it holds.\<close>

type_synonym file_state = "store option"

text \<open>\<^verbatim>\<open>k in d\<close> for a dict \<open>d\<close>.\<close>

definition has_key :: "('k \<times> 'v) list \<Rightarrow> 'k \<Rightarrow> bool" where
  "has_key d k \<longleftrightarrow> map_of d k \<noteq> None"

text \<open>A loop or comprehension that applies \<open>f\<close> to each element: the first exception ends it.\<close>

fun map_err :: "('a \<Rightarrow> error + 'b) \<Rightarrow> 'a list \<Rightarrow> error + 'b list" where
  "map_err f [] = Inr []"
| "map_err f (x # xs) =
     (case f x of
        Inl e \<Rightarrow> Inl e
      | Inr y \<Rightarrow> (case map_err f xs of Inl e \<Rightarrow> Inl e | Inr ys \<Rightarrow> Inr (y # ys)))"

section \<open>The Patient model\<close>

record patient =
  patient_id :: string
  name :: string
  city :: string
  age :: int
  gender :: string
  height :: pyfloat
  weight :: pyfloat

text \<open>
  What the program takes from libraries and this model does not fix: the C library's
  \<^verbatim>\<open>pow(x, 2.0)\<close>; what the validation library's lax mode does with a value that is
  not of the type of the field (a numeric string, a boolean, a float with no fractional
  part for an \<^verbatim>\<open>int\<close> field); and what \<^verbatim>\<open>sorted\<close> returns when a key is a nan.
\<close>

record library =
  c_pow2 :: "real \<Rightarrow> pyfloat"
  lax_int :: "jvalue \<Rightarrow> int option"
  lax_float :: "jvalue \<Rightarrow> pyfloat option"
  nan_sorted :: "bool \<Rightarrow> (pyfloat \<times> patient) list \<Rightarrow> (pyfloat \<times> patient) list"

text \<open>\<^verbatim>\<open>round(self.weight / ((self.height / 100) ** 2), 2)\<close>, the \<^verbatim>\<open>100\<close> converted to a float.\<close>

definition bmi :: "library \<Rightarrow> patient \<Rightarrow> error + pyfloat" where
  "bmi L p =
     (case float_truediv (height p) (Fin 100) of
        Inl e \<Rightarrow> Inl e
      | Inr x \<Rightarrow>
          (case float_pow2 (c_pow2 L) x of
             Inl e \<Rightarrow> Inl e
           | Inr y \<Rightarrow>
               (case float_truediv (weight p) y of
                  Inl e \<Rightarrow> Inl e
                | Inr z \<Rightarrow> float_round2 z)))"

text \<open>Every comparison of the chain reads \<^verbatim>\<open>self.bmi\<close> anew; the value is the same each time.\<close>

definition verdict :: "library \<Rightarrow> patient \<Rightarrow> error + string" where
  "verdict L p =
     (case bmi L p of
        Inl e \<Rightarrow> Inl e
      | Inr b \<Rightarrow>
          Inr (if fle (Fin 30) b then ''Obese''
               else if fle (Fin 25) b then ''Overweight''
               else if fle (Fin (185 / 10)) b then ''Normal''
               else ''Underweight''))"

text \<open>
  Validation of one field. A \<^verbatim>\<open>str\<close> field takes a string only; an \<^verbatim>\<open>int\<close> field
  takes an integer; a \<^verbatim>\<open>float\<close> field takes a float, or an integer that converts to a
  float (the nearest double; an integer too large for a double is refused). A value of
  another type goes to the lax conversions of the library.
\<close>

definition str_field :: "doc \<Rightarrow> string \<Rightarrow> string option" where
  "str_field d k = (case map_of d k of Some (JStr s) \<Rightarrow> Some s | _ \<Rightarrow> None)"

definition int_field :: "library \<Rightarrow> doc \<Rightarrow> string \<Rightarrow> int option" where
  "int_field L d k =
     (case map_of d k of
        None \<Rightarrow> None
      | Some (JInt i) \<Rightarrow> Some i
      | Some v \<Rightarrow> lax_int L v)"

definition float_field :: "library \<Rightarrow> doc \<Rightarrow> string \<Rightarrow> pyfloat option" where
  "float_field L d k =
     (case map_of d k of
        None \<Rightarrow> None
      | Some (JFloat r) \<Rightarrow> Some r
      | Some (JInt i) \<Rightarrow> (case fl (of_int i) of Fin r \<Rightarrow> Some (Fin r) | _ \<Rightarrow> None)
      | Some v \<Rightarrow> lax_float L v)"

text \<open>
  Construction of a \<^verbatim>\<open>Patient\<close> from a mapping of field names to values: every field
  is required, \<^verbatim>\<open>age\<close>, \<^verbatim>\<open>height\<close> and \<^verbatim>\<open>weight\<close> carry \<^verbatim>\<open>gt=0\<close>, and keys that
  are not fields of the model are ignored.
\<close>

definition Patient_validate :: "library \<Rightarrow> doc \<Rightarrow> error + patient" where
  "Patient_validate L d =
     (case do {
        i \<leftarrow> str_field d ''id'';
        n \<leftarrow> str_field d ''name'';
        c \<leftarrow> str_field d ''city'';
        a \<leftarrow> int_field L d ''age'';
        g \<leftarrow> str_field d ''gender'';
        h \<leftarrow> float_field L d ''height'';
        w \<leftarrow> float_field L d ''weight'';
        if 0 < a \<and> flt (Fin 0) h \<and> flt (Fin 0) w
        then Some \<lparr>patient_id = i, name = n, city = c, age = a, gender = g,
                    height = h, weight = w\<rparr>
        else None
      } of
        None \<Rightarrow> Inl ValidationError
      | Some p \<Rightarrow> Inr p)"

text \<open>
  \<^verbatim>\<open>Patient(id=pid, **info)\<close>: Python refuses a keyword given twice before the model
  sees the arguments.
\<close>

definition Patient_init :: "library \<Rightarrow> string \<Rightarrow> doc \<Rightarrow> error + patient" where
  "Patient_init L pid info =
     (if has_key info ''id'' then Inl TypeError
      else Patient_validate L ((''id'', JStr pid) # info))"

text \<open>
  \<^verbatim>\<open>model_dump\<close> lists the declared fields and then the computed fields, which it
  evaluates: an exception of \<^verbatim>\<open>bmi\<close> or \<^verbatim>\<open>verdict\<close> is an exception of the dump.
  \<^verbatim>\<open>exclude\<close> drops the keys named, all of them declared fields here.
\<close>

definition model_dump :: "library \<Rightarrow> patient \<Rightarrow> error + doc" where
  "model_dump L p =
     (case bmi L p of
        Inl e \<Rightarrow> Inl e
      | Inr b \<Rightarrow>
          (case verdict L p of
             Inl e \<Rightarrow> Inl e
           | Inr v \<Rightarrow>
               Inr [(''id'', JStr (patient_id p)),
                    (''name'', JStr (name p)),
                    (''city'', JStr (city p)),
                    (''age'', JInt (age p)),
                    (''gender'', JStr (gender p)),
                    (''height'', JFloat (height p)),
                    (''weight'', JFloat (weight p)),
                    (''bmi'', JFloat b),
                    (''verdict'', JStr v)]))"

definition model_dump_exclude :: "library \<Rightarrow> string set \<Rightarrow> patient \<Rightarrow> error + doc" where
  "model_dump_exclude L ex p =
     (case model_dump L p of
        Inl e \<Rightarrow> Inl e
      | Inr d \<Rightarrow> Inr (filter (\<lambda>kv. fst kv \<notin> ex) d))"

section \<open>File handling\<close>

definition load_data :: "file_state \<Rightarrow> store" where
  "load_data f = (case f of None \<Rightarrow> [] | Some d \<Rightarrow> d)"

definition save_data :: "store \<Rightarrow> file_state" where
  "save_data data = Some data"

section \<open>Endpoints\<close>

text \<open>
  Every endpoint takes the file and returns its result; a mutating endpoint returns the
  file as it leaves it as well. An exception leaves the file as it was found: every
  endpoint saves last.
\<close>

definition view_patients :: "file_state \<Rightarrow> store" where
  "view_patients f = load_data f"

definition get_patient :: "library \<Rightarrow> file_state \<Rightarrow> string \<Rightarrow> error + doc" where
  "get_patient L f pid =
     (let data = load_data f
      in case map_of data pid of
           None \<Rightarrow> Inl (HTTPException 404 ''Patient not found'')
         | Some info \<Rightarrow>
             (case Patient_init L pid info of
                Inl e \<Rightarrow> Inl e
              | Inr p \<Rightarrow> model_dump L p))"

definition create_patient ::
  "library \<Rightarrow> file_state \<Rightarrow> patient \<Rightarrow> (error + nat \<times> doc) \<times> file_state" where
  "create_patient L f p =
     (let data = load_data f
      in if has_key data (patient_id p)
         then (Inl (HTTPException 400 ''Patient with this ID already exists''), f)
         else case model_dump_exclude L {''id''} p of
                Inl e \<Rightarrow> (Inl e, f)
              | Inr d \<Rightarrow>
                  (Inr (201, [(''message'', JStr ''Patient created successfully''),
                              (''patient_id'', JStr (patient_id p))]),
                   save_data (AList.update (patient_id p) d data)))"

definition update_patient ::
  "library \<Rightarrow> file_state \<Rightarrow> string \<Rightarrow> patient \<Rightarrow> (error + doc) \<times> file_state" where
  "update_patient L f pid updated_patient =
     (let data = load_data f
      in if \<not> has_key data pid
         then (Inl (HTTPException 404 ''Patient not found''), f)
         else case model_dump_exclude L {''id''} updated_patient of
                Inl e \<Rightarrow> (Inl e, f)
              | Inr d \<Rightarrow>
                  (Inr [(''message'', JStr ''Patient updated successfully'')],
                   save_data (AList.update pid d data)))"

definition delete_patient :: "file_state \<Rightarrow> string \<Rightarrow> (error + doc) \<times> file_state" where
  "delete_patient f pid =
     (let data = load_data f
      in if \<not> has_key data pid
         then (Inl (HTTPException 404 ''Patient not found''), f)
         else (Inr [(''message'', JStr ''Patient deleted successfully'')],
               save_data (AList.delete pid data)))"

text \<open>
  The request body of \<^verbatim>\<open>/create\<close> and \<^verbatim>\<open>/update\<close> is declared as a \<^verbatim>\<open>Patient\<close>:
  the body is validated before the endpoint function runs.
\<close>

definition post_create ::
  "library \<Rightarrow> file_state \<Rightarrow> doc \<Rightarrow> (error + nat \<times> doc) \<times> file_state" where
  "post_create L f body =
     (case Patient_validate L body of
        Inl e \<Rightarrow> (Inl e, f)
      | Inr p \<Rightarrow> create_patient L f p)"

definition put_update ::
  "library \<Rightarrow> file_state \<Rightarrow> string \<Rightarrow> doc \<Rightarrow> (error + doc) \<times> file_state" where
  "put_update L f pid body =
     (case Patient_validate L body of
        Inl e \<Rightarrow> (Inl e, f)
      | Inr p \<Rightarrow> update_patient L f pid p)"

subsection \<open>Sorting\<close>

definition valid_fields :: "string list" where
  "valid_fields = [''height'', ''weight'', ''bmi'']"

text \<open>\<^verbatim>\<open>getattr(x, sort_by)\<close> for the three names that pass the check.\<close>

definition getattr :: "library \<Rightarrow> string \<Rightarrow> patient \<Rightarrow> error + pyfloat" where
  "getattr L sort_by x =
     (if sort_by = ''height'' then Inr (height x)
      else if sort_by = ''weight'' then Inr (weight x)
      else bmi L x)"

text \<open>
  \<^verbatim>\<open>sorted(xs, key=k, reverse=r)\<close>, on the list of the elements paired with their
  keys, which Python computes first. Python's sort is stable, and the stable sort of a
  list by keys that are linearly ordered has one result, which \<open>sort_key\<close> computes.
  With \<^verbatim>\<open>reverse\<close> the list is reversed, sorted and reversed again, which keeps equal
  keys in their original order. A nan among the keys breaks the order the algorithm
  relies on: what the sort returns then is left to the parameter \<open>S\<close>.
\<close>

definition py_sorted ::
  "(bool \<Rightarrow> (pyfloat \<times> 'a) list \<Rightarrow> (pyfloat \<times> 'a) list) \<Rightarrow> bool \<Rightarrow>
   (pyfloat \<times> 'a) list \<Rightarrow> (pyfloat \<times> 'a) list" where
  "py_sorted S r kxs =
     (if NaN \<in> fst ` set kxs then S r kxs
      else if r then rev (sort_key (\<lambda>kx. rank (fst kx)) (rev kxs))
      else sort_key (\<lambda>kx. rank (fst kx)) kxs)"

text \<open>The list comprehension: the first entry that fails to validate raises.\<close>

definition patients_of :: "library \<Rightarrow> store \<Rightarrow> error + patient list" where
  "patients_of L data = map_err (\<lambda>e. Patient_init L (fst e) (snd e)) data"

text \<open>
  The query parameter \<^verbatim>\<open>order\<close> is optional and defaults to \<^verbatim>\<open>"asc"\<close>;
  \<^verbatim>\<open>sort_by\<close> is required.
\<close>

definition sort_patients ::
  "library \<Rightarrow> file_state \<Rightarrow> string \<Rightarrow> string option \<Rightarrow> error + doc list" where
  "sort_patients L f sort_by order_param =
     (let order = (case order_param of None \<Rightarrow> ''asc'' | Some s \<Rightarrow> s)
      in if sort_by \<notin> set valid_fields
         then Inl (HTTPException 400 ''sort_by must be ['height', 'weight', 'bmi']'')
         else if order \<notin> set [''asc'', ''desc'']
         then Inl (HTTPException 400 ''order must be asc or desc'')
         else case patients_of L (load_data f) of
                Inl e \<Rightarrow> Inl e
              | Inr patients \<Rightarrow>
                  (case map_err (getattr L sort_by) patients of
                     Inl e \<Rightarrow> Inl e
                   | Inr keys \<Rightarrow>
                       map_err (model_dump L)
                         (map snd
                            (py_sorted (nan_sorted L) (order = ''desc'')
                               (zip keys patients)))))"

section \<open>Example data\<close>

text \<open>
  A library whose \<^verbatim>\<open>pow\<close> rounds correctly, whose lax mode converts nothing and whose
  sort leaves a list with a nan key alone; payloads with the height and weight given,
  and stores as \<open>create_patient\<close> writes them. At a height of one metre the body-mass
  index is the weight.
\<close>

definition ex_lib :: library where
  "ex_lib = \<lparr>c_pow2 = (\<lambda>x. fl (x * x)), lax_int = (\<lambda>v. None), lax_float = (\<lambda>v. None),
            nan_sorted = (\<lambda>r kxs. kxs)\<rparr>"

definition ex_patient :: "string \<Rightarrow> real \<Rightarrow> real \<Rightarrow> patient" where
  "ex_patient i h w = \<lparr>patient_id = i, name = ''John Doe'', city = ''Pune'', age = 25,
      gender = ''Male'', height = Fin h, weight = Fin w\<rparr>"

definition ex_body :: "string \<Rightarrow> real \<Rightarrow> real \<Rightarrow> doc" where
  "ex_body i h w = [(''id'', JStr i), (''name'', JStr ''John Doe''), (''city'', JStr ''Pune''),
      (''age'', JInt 25), (''gender'', JStr ''Male''), (''height'', JFloat (Fin h)),
      (''weight'', JFloat (Fin w))]"

definition ex_stored :: "real \<Rightarrow> real \<Rightarrow> real \<Rightarrow> string \<Rightarrow> doc" where
  "ex_stored h w b v = [(''name'', JStr ''John Doe''), (''city'', JStr ''Pune''),
      (''age'', JInt 25), (''gender'', JStr ''Male''), (''height'', JFloat (Fin h)),
      (''weight'', JFloat (Fin w)), (''bmi'', JFloat (Fin b)), (''verdict'', JStr v)]"

text \<open>
  The doubles nearest to \<open>1e-160\<close> and to \<open>1e200\<close>, and the smallest double above
  zero.
\<close>

definition tiny :: real where
  "tiny = 1582914569427869 / 15829145694278690179872161345257420162248406342477557754500035589945422406818039498900249667919554879334250971265032917718487362195632077437922953926521162746662833417516744704"

definition huge :: real where
  "huge = 99999999999999996973312221251036165947450327545502362648241750950346848435554075534196338404706251868027512415973882408182135734368278484639385041047239877871023591066789981811181813306167128854888448"

definition smallest :: real where
  "smallest = 1 / 2 ^ 1074"

section \<open>Evaluation of the rounding\<close>

text \<open>
  The value of \<open>fl\<close> at the numbers the examples need: first the exponent, then the
  nearest multiple on that grid.
\<close>

lemma fl_1: "fl (1) = Fin 1"
proof -
  have e: "expo \<bar>1\<bar> = - 52"
    by (simp add: expo_def ilog2_def pow2_def)
  have g: "grid (- 52) \<bar>1\<bar> = 1"
    by (simp add: grid_def round_half_even_def pow2_def Let_def)
  show ?thesis
    unfolding fl_def Let_def e g by (simp add: pow2_def)
qed

lemma fl_18: "fl (18) = Fin 18"
proof -
  have e: "expo \<bar>18\<bar> = - 48"
    by (simp add: expo_def ilog2_def pow2_def)
  have g: "grid (- 48) \<bar>18\<bar> = 18"
    by (simp add: grid_def round_half_even_def pow2_def Let_def)
  show ?thesis
    unfolding fl_def Let_def e g by (simp add: pow2_def)
qed

lemma fl_18_5: "fl (37 / 2) = Fin (37 / 2)"
proof -
  have e: "expo \<bar>37 / 2\<bar> = - 48"
    by (simp add: expo_def ilog2_def pow2_def)
  have g: "grid (- 48) \<bar>37 / 2\<bar> = 37 / 2"
    by (simp add: grid_def round_half_even_def pow2_def Let_def)
  show ?thesis
    unfolding fl_def Let_def e g by (simp add: pow2_def)
qed

lemma fl_20: "fl (20) = Fin 20"
proof -
  have e: "expo \<bar>20\<bar> = - 48"
    by (simp add: expo_def ilog2_def pow2_def)
  have g: "grid (- 48) \<bar>20\<bar> = 20"
    by (simp add: grid_def round_half_even_def pow2_def Let_def)
  show ?thesis
    unfolding fl_def Let_def e g by (simp add: pow2_def)
qed

lemma fl_24: "fl (24) = Fin 24"
proof -
  have e: "expo \<bar>24\<bar> = - 48"
    by (simp add: expo_def ilog2_def pow2_def)
  have g: "grid (- 48) \<bar>24\<bar> = 24"
    by (simp add: grid_def round_half_even_def pow2_def Let_def)
  show ?thesis
    unfolding fl_def Let_def e g by (simp add: pow2_def)
qed

lemma fl_25: "fl (25) = Fin 25"
proof -
  have e: "expo \<bar>25\<bar> = - 48"
    by (simp add: expo_def ilog2_def pow2_def)
  have g: "grid (- 48) \<bar>25\<bar> = 25"
    by (simp add: grid_def round_half_even_def pow2_def Let_def)
  show ?thesis
    unfolding fl_def Let_def e g by (simp add: pow2_def)
qed

lemma fl_29_5: "fl (59 / 2) = Fin (59 / 2)"
proof -
  have e: "expo \<bar>59 / 2\<bar> = - 48"
    by (simp add: expo_def ilog2_def pow2_def)
  have g: "grid (- 48) \<bar>59 / 2\<bar> = 59 / 2"
    by (simp add: grid_def round_half_even_def pow2_def Let_def)
  show ?thesis
    unfolding fl_def Let_def e g by (simp add: pow2_def)
qed

lemma fl_30: "fl (30) = Fin 30"
proof -
  have e: "expo \<bar>30\<bar> = - 48"
    by (simp add: expo_def ilog2_def pow2_def)
  have g: "grid (- 48) \<bar>30\<bar> = 30"
    by (simp add: grid_def round_half_even_def pow2_def Let_def)
  show ?thesis
    unfolding fl_def Let_def e g by (simp add: pow2_def)
qed

lemma fl_31: "fl (31) = Fin 31"
proof -
  have e: "expo \<bar>31\<bar> = - 48"
    by (simp add: expo_def ilog2_def pow2_def)
  have g: "grid (- 48) \<bar>31\<bar> = 31"
    by (simp add: grid_def round_half_even_def pow2_def Let_def)
  show ?thesis
    unfolding fl_def Let_def e g by (simp add: pow2_def)
qed

lemma fl_21_875: "fl (175 / 8) = Fin (175 / 8)"
proof -
  have e: "expo \<bar>175 / 8\<bar> = - 48"
    by (simp add: expo_def ilog2_def pow2_def)
  have g: "grid (- 48) \<bar>175 / 8\<bar> = 175 / 8"
    by (simp add: grid_def round_half_even_def pow2_def Let_def)
  show ?thesis
    unfolding fl_def Let_def e g by (simp add: pow2_def)
qed

lemma fl_21_88: "fl (547 / 25) = Fin (6158672490429153 / 281474976710656)"
proof -
  have e: "expo \<bar>547 / 25\<bar> = - 48"
    by (simp add: expo_def ilog2_def pow2_def)
  have g: "grid (- 48) \<bar>547 / 25\<bar> = 6158672490429153 / 281474976710656"
    by (simp add: grid_def round_half_even_def pow2_def Let_def)
  show ?thesis
    unfolding fl_def Let_def e g by (simp add: pow2_def)
qed

lemma fl_21_87: "fl (2187 / 100) = Fin (6155857740662047 / 281474976710656)"
proof -
  have e: "expo \<bar>2187 / 100\<bar> = - 48"
    by (simp add: expo_def ilog2_def pow2_def)
  have g: "grid (- 48) \<bar>2187 / 100\<bar> = 6155857740662047 / 281474976710656"
    by (simp add: grid_def round_half_even_def pow2_def Let_def)
  show ?thesis
    unfolding fl_def Let_def e g by (simp add: pow2_def)
qed

lemma fl_1_6: "fl (8 / 5) = Fin (3602879701896397 / 2251799813685248)"
proof -
  have e: "expo \<bar>8 / 5\<bar> = - 52"
    by (simp add: expo_def ilog2_def pow2_def)
  have g: "grid (- 52) \<bar>8 / 5\<bar> = 3602879701896397 / 2251799813685248"
    by (simp add: grid_def round_half_even_def pow2_def Let_def)
  show ?thesis
    unfolding fl_def Let_def e g by (simp add: pow2_def)
qed

lemma fl_1_6_squared: "fl (12980742146337070512478121581609 / 5070602400912917605986812821504) = Fin (1441151880758559 / 562949953421312)"
proof -
  have e: "expo \<bar>12980742146337070512478121581609 / 5070602400912917605986812821504\<bar> = - 51"
    by (simp add: expo_def ilog2_def pow2_def)
  have g: "grid (- 51) \<bar>12980742146337070512478121581609 / 5070602400912917605986812821504\<bar> = 1441151880758559 / 562949953421312"
    by (simp add: grid_def round_half_even_def pow2_def Let_def)
  show ?thesis
    unfolding fl_def Let_def e g by (simp add: pow2_def)
qed

lemma fl_56_by_2_56: "fl (31525197391593472 / 1441151880758559) = Fin (6157265115545599 / 281474976710656)"
proof -
  have e: "expo \<bar>31525197391593472 / 1441151880758559\<bar> = - 48"
    by (simp add: expo_def ilog2_def pow2_def)
  have g: "grid (- 48) \<bar>31525197391593472 / 1441151880758559\<bar> = 6157265115545599 / 281474976710656"
    by (simp add: grid_def round_half_even_def pow2_def Let_def)
  show ?thesis
    unfolding fl_def Let_def e g by (simp add: pow2_def)
qed

lemma fl_tiny_by_100: "fl (1582914569427869 / 1582914569427869017987216134525742016224840634247755775450003558994542240681803949890024966791955487933425097126503291771848736219563207743792295392652116274666283341751674470400) = Fin (8104522595470689 / 8104522595470689372094546608771799123071184047348509570304018222052056272290836223436927829974812098219136497287696853871865529444163623648216552410378835326291370709768573288448)"
proof -
  have e: "expo \<bar>1582914569427869 / 1582914569427869017987216134525742016224840634247755775450003558994542240681803949890024966791955487933425097126503291771848736219563207743792295392652116274666283341751674470400\<bar> = - 591"
    by (simp add: expo_def ilog2_def pow2_def)
  have g: "grid (- 591) \<bar>1582914569427869 / 1582914569427869017987216134525742016224840634247755775450003558994542240681803949890024966791955487933425097126503291771848736219563207743792295392652116274666283341751674470400\<bar> = 8104522595470689 / 8104522595470689372094546608771799123071184047348509570304018222052056272290836223436927829974812098219136497287696853871865529444163623648216552410378835326291370709768573288448"
    by (simp add: grid_def round_half_even_def pow2_def Let_def)
  show ?thesis
    unfolding fl_def Let_def e g by (simp add: pow2_def)
qed

lemma fl_tiny_squared: "fl (65683286500494953296657458134721 / 65683286500494959327954779419146100935287188512606391608174273744204485669104559400167406224197563832421764064910742140917148312724367755985228004008211964968336118589996303103960723482208462234140270478893495659757025471756899144019670767845298639620724425414045082011087717391138844989003146257315246103500315524087033702439222397633815438979772610248704) = Fin 0"
proof -
  have e: "expo \<bar>65683286500494953296657458134721 / 65683286500494959327954779419146100935287188512606391608174273744204485669104559400167406224197563832421764064910742140917148312724367755985228004008211964968336118589996303103960723482208462234140270478893495659757025471756899144019670767845298639620724425414045082011087717391138844989003146257315246103500315524087033702439222397633815438979772610248704\<bar> = - 1074"
    by (simp add: expo_def ilog2_def pow2_def)
  have g: "grid (- 1074) \<bar>65683286500494953296657458134721 / 65683286500494959327954779419146100935287188512606391608174273744204485669104559400167406224197563832421764064910742140917148312724367755985228004008211964968336118589996303103960723482208462234140270478893495659757025471756899144019670767845298639620724425414045082011087717391138844989003146257315246103500315524087033702439222397633815438979772610248704\<bar> = 0"
    by (simp add: grid_def round_half_even_def pow2_def Let_def)
  show ?thesis
    unfolding fl_def Let_def e g by (simp add: pow2_def)
qed

lemma fl_huge_by_100: "fl (24999999999999999243328055312759041486862581886375590662060437737586712108888518883549084601176562967006878103993470602045533933592069621159846260261809969467755897766697495452795453326541782213722112 / 25) = Fin 1000000000000000017535541566019400541537441865177200086145798104936341572305513193378283771523764365204900328030374534281861011105867876227585990799216050325567033999660761493056632508247061001404416"
proof -
  have e: "expo \<bar>24999999999999999243328055312759041486862581886375590662060437737586712108888518883549084601176562967006878103993470602045533933592069621159846260261809969467755897766697495452795453326541782213722112 / 25\<bar> = 605"
    by (simp add: expo_def ilog2_def pow2_def)
  have g: "grid (605) \<bar>24999999999999999243328055312759041486862581886375590662060437737586712108888518883549084601176562967006878103993470602045533933592069621159846260261809969467755897766697495452795453326541782213722112 / 25\<bar> = 1000000000000000017535541566019400541537441865177200086145798104936341572305513193378283771523764365204900328030374534281861011105867876227585990799216050325567033999660761493056632508247061001404416"
    by (simp add: grid_def round_half_even_def pow2_def Let_def)
  show ?thesis
    unfolding fl_def Let_def e g by (simp add: pow2_def)
qed

lemma fl_huge_squared: "fl (1000000000000000035071083132038801390570101743948530533357415335131349283997690440985160284130967092820402388407321390423666228791309808695832003471612781933104800035249624080409192141217164246623848595739972037148762099741375102327203632914859625848006375074067912491389559950664259049363279881387371708520819020055469364484933108313809007189160236123514162769635458244262339125608844724384301056) = PInf"
proof -
  have e: "expo \<bar>1000000000000000035071083132038801390570101743948530533357415335131349283997690440985160284130967092820402388407321390423666228791309808695832003471612781933104800035249624080409192141217164246623848595739972037148762099741375102327203632914859625848006375074067912491389559950664259049363279881387371708520819020055469364484933108313809007189160236123514162769635458244262339125608844724384301056\<bar> = 1263"
    by (simp add: expo_def ilog2_def pow2_def)
  have g: "grid (1263) \<bar>1000000000000000035071083132038801390570101743948530533357415335131349283997690440985160284130967092820402388407321390423666228791309808695832003471612781933104800035249624080409192141217164246623848595739972037148762099741375102327203632914859625848006375074067912491389559950664259049363279881387371708520819020055469364484933108313809007189160236123514162769635458244262339125608844724384301056\<bar> = 999999999999999962548451771690684809076493285594286626085462615451650223699469634530787258815383100700517079818566301066875576949199347223083144088389044174728825049006032436451622606264060050845606798799344098426541208718277840641955336625328493369436498690038722907937282555908181996724525633202071747441130863081661241684692006334633236465661234694895347875047846842872976218539126550354198528"
    by (simp add: grid_def round_half_even_def pow2_def Let_def)
  show ?thesis
    unfolding fl_def Let_def e g by (simp add: pow2_def)
qed

lemma fl_2: "fl (2) = Fin 2"
proof -
  have e: "expo \<bar>2\<bar> = - 51"
    by (simp add: expo_def ilog2_def pow2_def)
  have g: "grid (- 51) \<bar>2\<bar> = 2"
    by (simp add: grid_def round_half_even_def pow2_def Let_def)
  show ?thesis
    unfolding fl_def Let_def e g by (simp add: pow2_def)
qed

lemma fl_4: "fl (4) = Fin 4"
proof -
  have e: "expo \<bar>4\<bar> = - 50"
    by (simp add: expo_def ilog2_def pow2_def)
  have g: "grid (- 50) \<bar>4\<bar> = 4"
    by (simp add: grid_def round_half_even_def pow2_def Let_def)
  show ?thesis
    unfolding fl_def Let_def e g by (simp add: pow2_def)
qed

lemma fl_smallest_by_100: "fl (1 / 20240225330731061835249534671891730704955664976414211835690135802743033956799534689196038370143712449518707786431681191138980873738579347686701339994073850992151742427656636136446690774209321634123976767847274506856200748342469269861810335564915955634081005651235876955233341461523050253218632750864600626330770774109349478400) = Fin 0"
proof -
  have e: "expo \<bar>1 / 20240225330731061835249534671891730704955664976414211835690135802743033956799534689196038370143712449518707786431681191138980873738579347686701339994073850992151742427656636136446690774209321634123976767847274506856200748342469269861810335564915955634081005651235876955233341461523050253218632750864600626330770774109349478400\<bar> = - 1074"
    by (simp add: expo_def ilog2_def pow2_def)
  have g: "grid (- 1074) \<bar>1 / 20240225330731061835249534671891730704955664976414211835690135802743033956799534689196038370143712449518707786431681191138980873738579347686701339994073850992151742427656636136446690774209321634123976767847274506856200748342469269861810335564915955634081005651235876955233341461523050253218632750864600626330770774109349478400\<bar> = 0"
    by (simp add: grid_def round_half_even_def pow2_def Let_def)
  show ?thesis
    unfolding fl_def Let_def e g by (simp add: pow2_def)
qed

lemma fl_10_pow_309: "fl (1000000000000000000000000000000000000000000000000000000000000000000000000000000000000000000000000000000000000000000000000000000000000000000000000000000000000000000000000000000000000000000000000000000000000000000000000000000000000000000000000000000000000000000000000000000000000000000000000000000000000000000000) = PInf"
proof -
  have e: "expo \<bar>1000000000000000000000000000000000000000000000000000000000000000000000000000000000000000000000000000000000000000000000000000000000000000000000000000000000000000000000000000000000000000000000000000000000000000000000000000000000000000000000000000000000000000000000000000000000000000000000000000000000000000000000\<bar> = 974"
    by (simp add: expo_def ilog2_def pow2_def)
  have g: "grid (974) \<bar>1000000000000000000000000000000000000000000000000000000000000000000000000000000000000000000000000000000000000000000000000000000000000000000000000000000000000000000000000000000000000000000000000000000000000000000000000000000000000000000000000000000000000000000000000000000000000000000000000000000000000000000000\<bar> = 1000000000000000010979063629440455417404923096773118463368106829031575854049114915371633289784946888990612496697211725156115902837431400883283070091981460460312716645029330271856974896995885590433383844661650011784268976262129451776280911957867074581227839701717844151052918028932078732729748857154302231183360"
    by (simp add: grid_def round_half_even_def pow2_def Let_def)
  show ?thesis
    unfolding fl_def Let_def e g by (simp add: pow2_def)
qed

section \<open>Basic facts\<close>

lemma has_key_iff: "has_key d k \<longleftrightarrow> k \<in> fst ` set d"
  by (simp add: has_key_def map_of_eq_None_iff)

lemma load_save: "load_data (save_data d) = d"
  by (simp add: load_data_def save_data_def)

lemma bmi_cong: "height p = height q \<Longrightarrow> weight p = weight q \<Longrightarrow> bmi L p = bmi L q"
  by (simp add: bmi_def split: sum.splits)

lemma verdict_of_bmi:
  assumes "bmi L p = Inr b"
  shows "verdict L p =
           Inr (if fle (Fin 30) b then ''Obese''
                else if fle (Fin 25) b then ''Overweight''
                else if fle (Fin (185 / 10)) b then ''Normal''
                else ''Underweight'')"
  using assms by (simp add: verdict_def)

lemma verdict_raises: "bmi L p = Inl e \<Longrightarrow> verdict L p = Inl e"
  by (simp add: verdict_def)

lemma verdict_total: "bmi L p = Inr b \<Longrightarrow> \<exists>v. verdict L p = Inr v"
  by (simp add: verdict_def)

lemma model_dump_value:
  assumes "bmi L p = Inr b" "verdict L p = Inr v"
  shows "model_dump L p =
           Inr [(''id'', JStr (patient_id p)), (''name'', JStr (name p)),
                (''city'', JStr (city p)), (''age'', JInt (age p)),
                (''gender'', JStr (gender p)), (''height'', JFloat (height p)),
                (''weight'', JFloat (weight p)), (''bmi'', JFloat b), (''verdict'', JStr v)]"
  using assms by (simp add: model_dump_def)

lemma model_dump_raises: "bmi L p = Inl e \<Longrightarrow> model_dump L p = Inl e"
  by (simp add: model_dump_def)


lemma model_dump_exclude_id:
  assumes "bmi L p = Inr b" "verdict L p = Inr v"
  shows "model_dump_exclude L {''id''} p =
           Inr [(''name'', JStr (name p)), (''city'', JStr (city p)), (''age'', JInt (age p)),
                (''gender'', JStr (gender p)), (''height'', JFloat (height p)),
                (''weight'', JFloat (weight p)), (''bmi'', JFloat b), (''verdict'', JStr v)]"
  using assms by (simp add: model_dump_exclude_def model_dump_def)

lemma model_dump_exclude_raises: "bmi L p = Inl e \<Longrightarrow> model_dump_exclude L ex p = Inl e"
  by (simp add: model_dump_exclude_def model_dump_def)

subsection \<open>Validation\<close>

lemma Patient_validate_constraints:
  assumes "Patient_validate L d = Inr p"
  shows "0 < age p \<and> flt (Fin 0) (height p) \<and> flt (Fin 0) (weight p)"
  using assms
  by (auto simp: Patient_validate_def split: option.splits Option.bind_splits if_splits)

lemma Patient_validate_typed:
  "Patient_validate L [(''id'', JStr i), (''name'', JStr n), (''city'', JStr c),
       (''age'', JInt a), (''gender'', JStr g), (''height'', JFloat h), (''weight'', JFloat w)] =
     (if 0 < a \<and> flt (Fin 0) h \<and> flt (Fin 0) w
      then Inr \<lparr>patient_id = i, name = n, city = c, age = a, gender = g,
                 height = h, weight = w\<rparr>
      else Inl ValidationError)"
  by (simp add: Patient_validate_def str_field_def int_field_def float_field_def)

lemma Patient_validate_error:
  "Patient_validate L d = Inl e \<Longrightarrow> e = ValidationError"
  by (auto simp: Patient_validate_def split: option.splits)

lemma Patient_init_stored:
  assumes "0 < age p" "flt (Fin 0) (height p)" "flt (Fin 0) (weight p)"
  shows "Patient_init L pid
           [(''name'', JStr (name p)), (''city'', JStr (city p)), (''age'', JInt (age p)),
            (''gender'', JStr (gender p)), (''height'', JFloat (height p)),
            (''weight'', JFloat (weight p)), (''bmi'', JFloat b), (''verdict'', JStr v)] =
         Inr (p\<lparr>patient_id := pid\<rparr>)"
  using assms
  by (simp add: Patient_init_def has_key_def Patient_validate_def
      str_field_def int_field_def float_field_def)



subsection \<open>Loops\<close>


lemma map_err_sound:
  assumes "map_err f xs = Inr ys"
  shows "list_all2 (\<lambda>x y. f x = Inr y) xs ys"
  using assms
proof (induction xs arbitrary: ys)
  case Nil
  then show ?case by simp
next
  case (Cons x xs)
  from Cons.prems obtain y zs where "f x = Inr y" "map_err f xs = Inr zs" "ys = y # zs"
    by (auto split: sum.splits)
  with Cons.IH [of zs] show ?case by simp
qed



subsection \<open>The order of floats\<close>

lemma rank_le_iff: "a \<noteq> NaN \<Longrightarrow> b \<noteq> NaN \<Longrightarrow> rank a \<le> rank b \<longleftrightarrow> fle a b"
  by (simp add: fle_def)


subsection \<open>Python's \<open>sorted\<close>\<close>





lemma stable_sort_mset:
  "mset (if r then rev (sort_key f (rev xs)) else sort_key f xs) = mset xs"
  by simp

lemma stable_sort_asc: "sorted (map f (sort_key f xs))"
  by simp



subsection \<open>The examples\<close>

lemma bmi_one_metre:
  assumes "fl w = Fin w" "w \<noteq> 0" "fl (of_int (round_half_even (w * 100)) / 100) = Fin r"
  shows "bmi ex_lib (ex_patient i 100 w) = Inr (Fin r)"
  using assms fl_1
  by (simp add: bmi_def ex_patient_def float_truediv_def float_pow2_def float_round2_def)

text \<open>At two metres the library's square of 2 is asked for.\<close>

lemma bmi_two_metres:
  "bmi ex_lib (ex_patient i 200 (175 / 2)) = Inr (Fin (6158672490429153 / 281474976710656))"
  using fl_2 fl_4 fl_21_875 fl_21_88
  by (simp add: bmi_def ex_patient_def ex_lib_def float_truediv_def float_pow2_def
      float_round2_def round_half_even_def)

lemma bmi_ex:
  "bmi ex_lib (ex_patient i 100 18) = Inr (Fin 18)"
  "bmi ex_lib (ex_patient i 100 (37 / 2)) = Inr (Fin (37 / 2))"
  "bmi ex_lib (ex_patient i 100 20) = Inr (Fin 20)"
  "bmi ex_lib (ex_patient i 100 24) = Inr (Fin 24)"
  "bmi ex_lib (ex_patient i 100 25) = Inr (Fin 25)"
  "bmi ex_lib (ex_patient i 100 (59 / 2)) = Inr (Fin (59 / 2))"
  "bmi ex_lib (ex_patient i 100 30) = Inr (Fin 30)"
  "bmi ex_lib (ex_patient i 100 31) = Inr (Fin 31)"
  using bmi_one_metre [of 18 18 i] bmi_one_metre [of "37 / 2" "37 / 2" i]
    bmi_one_metre [of 20 20 i] bmi_one_metre [of 24 24 i] bmi_one_metre [of 25 25 i]
    bmi_one_metre [of "59 / 2" "59 / 2" i] bmi_one_metre [of 30 30 i]
    bmi_one_metre [of 31 31 i]
    fl_18 fl_18_5 fl_20 fl_24 fl_25 fl_29_5 fl_30 fl_31
  by (simp_all add: round_half_even_def)

text \<open>A weight of 21.875 kg at one metre: the tie goes to 21.88.\<close>

lemma bmi_ex_tie:
  "bmi ex_lib (ex_patient i 100 (175 / 8)) = Inr (Fin (6158672490429153 / 281474976710656))"
  using bmi_one_metre [of "175 / 8" "6158672490429153 / 281474976710656" i] fl_21_875 fl_21_88
  by (simp add: round_half_even_def)

text \<open>
  56 kg at 160 cm: \<open>160 / 100\<close> is not a double, its square is rounded up, the quotient
  falls below 21.875 and is rounded to 21.87.
\<close>

lemma bmi_ex_160_56:
  "bmi ex_lib (ex_patient i 160 56) = Inr (Fin (6155857740662047 / 281474976710656))"
  using fl_1_6 fl_1_6_squared fl_56_by_2_56 fl_21_87
  by (simp add: bmi_def ex_patient_def ex_lib_def float_truediv_def float_pow2_def
      float_round2_def round_half_even_def)

lemma ex_fields:
  "patient_id (ex_patient i h w) = i" "height (ex_patient i h w) = Fin h"
  "weight (ex_patient i h w) = Fin w"
  by (simp_all add: ex_patient_def)

lemma tiny_positive: "0 < tiny"
  by (simp add: tiny_def)

lemma huge_positive: "0 < huge"
  by (simp add: huge_def)

lemma bmi_ex_tiny: "bmi ex_lib (ex_patient i tiny 70) = Inl ZeroDivisionError"
  using fl_tiny_by_100 fl_tiny_squared
  by (simp add: bmi_def ex_patient_def ex_lib_def float_truediv_def float_pow2_def tiny_def)

text \<open>
  The smallest height above zero: its hundredth is rounded to zero, and the square of
  zero is zero without the library.
\<close>

lemma smallest_positive: "0 < smallest"
  by (simp add: smallest_def)

lemma bmi_ex_smallest: "bmi L (ex_patient i smallest 70) = Inl ZeroDivisionError"
  using fl_smallest_by_100
  by (simp add: bmi_def ex_patient_def float_truediv_def float_pow2_def smallest_def)

lemma bmi_ex_huge: "bmi ex_lib (ex_patient i huge 70) = Inl OverflowError"
  using fl_huge_by_100 fl_huge_squared
  by (simp add: bmi_def ex_patient_def ex_lib_def float_truediv_def float_pow2_def huge_def)

lemma verdict_ex:
  "verdict ex_lib (ex_patient i 100 18) = Inr ''Underweight''"
  "verdict ex_lib (ex_patient i 100 (37 / 2)) = Inr ''Normal''"
  "verdict ex_lib (ex_patient i 100 20) = Inr ''Normal''"
  "verdict ex_lib (ex_patient i 100 24) = Inr ''Normal''"
  "verdict ex_lib (ex_patient i 100 25) = Inr ''Overweight''"
  "verdict ex_lib (ex_patient i 100 (59 / 2)) = Inr ''Overweight''"
  "verdict ex_lib (ex_patient i 100 30) = Inr ''Obese''"
  "verdict ex_lib (ex_patient i 100 31) = Inr ''Obese''"
  "verdict ex_lib (ex_patient i 100 (175 / 8)) = Inr ''Normal''"
  "verdict ex_lib (ex_patient i 160 56) = Inr ''Normal''"
  by (simp_all add: verdict_def bmi_ex bmi_ex_tie bmi_ex_160_56 fle_def)

lemma ex_body_valid:
  "0 < h \<Longrightarrow> 0 < w \<Longrightarrow> Patient_validate L (ex_body i h w) = Inr (ex_patient i h w)"
  by (simp add: ex_body_def ex_patient_def Patient_validate_typed flt_def)

lemma ex_stored_init:
  "0 < h \<Longrightarrow> 0 < w \<Longrightarrow> Patient_init L i (ex_stored h w b v) = Inr (ex_patient i h w)"
  using Patient_init_stored [of "ex_patient i h w" L i "Fin b" v]
  by (simp add: ex_patient_def ex_stored_def flt_def)

lemma ex_dump_exclude:
  assumes "bmi L (ex_patient i h w) = Inr (Fin b)" "verdict L (ex_patient i h w) = Inr v"
  shows "model_dump_exclude L {''id''} (ex_patient i h w) = Inr (ex_stored h w b v)"
  using model_dump_exclude_id [OF assms] by (simp add: ex_patient_def ex_stored_def)

lemma ex_dump:
  assumes "bmi L (ex_patient i h w) = Inr (Fin b)" "verdict L (ex_patient i h w) = Inr v"
  shows "model_dump L (ex_patient i h w) =
           Inr (ex_body i h w @ [(''bmi'', JFloat (Fin b)), (''verdict'', JStr v)])"
  using model_dump_value [OF assms] by (simp add: ex_patient_def ex_body_def)

text \<open>An integer too large for a double is not a height.\<close>

lemma huge_int_height_rejected:
  "Patient_validate L [(''id'', JStr ''P001''), (''name'', JStr ''John Doe''),
       (''city'', JStr ''Pune''), (''age'', JInt 25), (''gender'', JStr ''Male''),
       (''height'', JInt (10 ^ 309)), (''weight'', JFloat (Fin 70))] = Inl ValidationError"
  using fl_10_pow_309
  by (simp add: Patient_validate_def str_field_def int_field_def float_field_def)

subsection \<open>The entries the endpoints write\<close>

text \<open>
  The sort needs every entry of the store to construct a \<^verbatim>\<open>Patient\<close> whose index
  evaluates. The endpoints keep the store so: what create and update write is the dump
  of a validated payload, and the dump is only written when its index has evaluated.
\<close>

lemma set_update_subset: "set (AList.update k v al) \<subseteq> insert (k, v) (set al)"
  by (induction al) auto

lemma set_delete_subset: "set (AList.delete k al) \<subseteq> set al"
  by (auto simp: AList.delete_eq)

lemma written_entry_readable:
  assumes "Patient_validate L body = Inr q" "bmi L q = Inr b" "verdict L q = Inr v"
      and "model_dump_exclude L {''id''} q = Inr d"
  shows "Patient_init L pid d = Inr (q\<lparr>patient_id := pid\<rparr>) \<and> bmi L (q\<lparr>patient_id := pid\<rparr>) = Inr b"
proof -
  from assms(1) have c: "0 < age q" "flt (Fin 0) (height q)" "flt (Fin 0) (weight q)"
    by (simp_all add: Patient_validate_constraints)
  have "bmi L (q\<lparr>patient_id := pid\<rparr>) = bmi L q"
    by (rule bmi_cong) simp_all
  with assms(2,4) model_dump_exclude_id [OF assms(2,3)] Patient_init_stored [OF c, of L pid b v]
  show ?thesis by simp
qed

lemma post_create_keeps_entries_readable:
  assumes "\<forall>e\<in>set (load_data f). \<exists>p b. Patient_init L (fst e) (snd e) = Inr p \<and> bmi L p = Inr b"
  shows "\<forall>e\<in>set (load_data (snd (post_create L f body))).
           \<exists>p b. Patient_init L (fst e) (snd e) = Inr p \<and> bmi L p = Inr b"
proof (cases "Patient_validate L body")
  case (Inl e)
  with assms show ?thesis by (simp add: post_create_def)
next
  case (Inr q)
  show ?thesis
  proof (cases "has_key (load_data f) (patient_id q) \<or> (\<exists>e. bmi L q = Inl e)")
    case True
    with Inr have "snd (post_create L f body) = f"
      by (auto simp: post_create_def create_patient_def model_dump_exclude_raises Let_def)
    with assms show ?thesis by simp
  next
    case False
    then obtain b where b: "bmi L q = Inr b"
      by (cases "bmi L q") auto
    then obtain v where v: "verdict L q = Inr v"
      using verdict_total by blast
    from model_dump_exclude_id [OF b v] obtain d where d: "model_dump_exclude L {''id''} q = Inr d"
      by blast
    have s: "load_data (snd (post_create L f body)) = AList.update (patient_id q) d (load_data f)"
      using False Inr d by (simp add: post_create_def create_patient_def load_save)
    show ?thesis
      unfolding s
      using assms written_entry_readable [OF Inr b v d, of "patient_id q"]
        set_update_subset [of "patient_id q" d "load_data f"]
      by fastforce
  qed
qed

lemma put_update_keeps_entries_readable:
  assumes "\<forall>e\<in>set (load_data f). \<exists>p b. Patient_init L (fst e) (snd e) = Inr p \<and> bmi L p = Inr b"
  shows "\<forall>e\<in>set (load_data (snd (put_update L f pid body))).
           \<exists>p b. Patient_init L (fst e) (snd e) = Inr p \<and> bmi L p = Inr b"
proof (cases "Patient_validate L body")
  case (Inl e)
  with assms show ?thesis by (simp add: put_update_def)
next
  case (Inr q)
  show ?thesis
  proof (cases "\<not> has_key (load_data f) pid \<or> (\<exists>e. bmi L q = Inl e)")
    case True
    with Inr have "snd (put_update L f pid body) = f"
      by (auto simp: put_update_def update_patient_def model_dump_exclude_raises Let_def)
    with assms show ?thesis by simp
  next
    case False
    then obtain b where b: "bmi L q = Inr b"
      by (cases "bmi L q") auto
    then obtain v where v: "verdict L q = Inr v"
      using verdict_total by blast
    from model_dump_exclude_id [OF b v] obtain d where d: "model_dump_exclude L {''id''} q = Inr d"
      by blast
    have s: "load_data (snd (put_update L f pid body)) = AList.update pid d (load_data f)"
      using False Inr d by (simp add: put_update_def update_patient_def load_save)
    show ?thesis
      unfolding s
      using assms written_entry_readable [OF Inr b v d, of pid]
        set_update_subset [of pid d "load_data f"]
      by fastforce
  qed
qed

lemma delete_keeps_entries_readable:
  assumes "\<forall>e\<in>set (load_data f). \<exists>p b. Patient_init L (fst e) (snd e) = Inr p \<and> bmi L p = Inr b"
  shows "\<forall>e\<in>set (load_data (snd (delete_patient f pid))).
           \<exists>p b. Patient_init L (fst e) (snd e) = Inr p \<and> bmi L p = Inr b"
  using assms set_delete_subset [of pid "load_data f"]
  by (auto simp: delete_patient_def load_save Let_def)

section \<open>What is persisted\<close>

text \<open>
  C1, as the specification states it, asks that the value stored under the patient ID hold
  the six fields \<^verbatim>\<open>name, city, age, gender, height, weight\<close> and nothing else. Creating
  a patient in a missing file stores eight keys: \<^verbatim>\<open>model_dump(exclude={"id"})\<close> drops
  the ID only, and the computed fields \<^verbatim>\<open>bmi\<close> and \<^verbatim>\<open>verdict\<close> are part of the dump.
\<close>

theorem stored_value_fields_counterexample:
  "fst (create_patient ex_lib None (ex_patient ''P001'' 100 20)) =
     Inr (201, [(''message'', JStr ''Patient created successfully''),
                (''patient_id'', JStr ''P001'')])
   \<and> map_of (load_data (snd (create_patient ex_lib None (ex_patient ''P001'' 100 20)))) ''P001'' =
     Some [(''name'', JStr ''John Doe''), (''city'', JStr ''Pune''), (''age'', JInt 25),
           (''gender'', JStr ''Male''), (''height'', JFloat (Fin 100)),
           (''weight'', JFloat (Fin 20)), (''bmi'', JFloat (Fin 20)),
           (''verdict'', JStr ''Normal'')]
   \<and> map_option (map fst)
         (map_of (load_data (snd (create_patient ex_lib None (ex_patient ''P001'' 100 20)))) ''P001'') \<noteq>
     Some [''name'', ''city'', ''age'', ''gender'', ''height'', ''weight'']"
  using ex_dump_exclude [OF bmi_ex(3) verdict_ex(3), of "''P001''"]
  by (simp add: create_patient_def load_data_def save_data_def has_key_def ex_stored_def)
    (simp add: ex_patient_def)

text \<open>
  C1 (amended): after a successful create or update the value stored under the patient ID
  holds the six stored fields of the payload followed by \<^verbatim>\<open>bmi\<close> and \<^verbatim>\<open>verdict\<close>
  as computed from the payload's height and weight when it was written; the ID is not
  part of the value.
\<close>

theorem stored_value_fields:
  "(fst (create_patient L f p) = Inr r \<longrightarrow>
      (\<exists>b v. bmi L p = Inr b \<and> verdict L p = Inr v
         \<and> map_of (load_data (snd (create_patient L f p))) (patient_id p) =
             Some [(''name'', JStr (name p)), (''city'', JStr (city p)),
                   (''age'', JInt (age p)), (''gender'', JStr (gender p)),
                   (''height'', JFloat (height p)), (''weight'', JFloat (weight p)),
                   (''bmi'', JFloat b), (''verdict'', JStr v)]))
   \<and> (fst (update_patient L f pid p) = Inr r' \<longrightarrow>
      (\<exists>b v. bmi L p = Inr b \<and> verdict L p = Inr v
         \<and> map_of (load_data (snd (update_patient L f pid p))) pid =
             Some [(''name'', JStr (name p)), (''city'', JStr (city p)),
                   (''age'', JInt (age p)), (''gender'', JStr (gender p)),
                   (''height'', JFloat (height p)), (''weight'', JFloat (weight p)),
                   (''bmi'', JFloat b), (''verdict'', JStr v)]))"
proof (cases "bmi L p")
  case (Inl e)
  then show ?thesis
    by (simp add: create_patient_def update_patient_def model_dump_exclude_raises Let_def)
next
  case (Inr b)
  then obtain v where v: "verdict L p = Inr v"
    using verdict_total by blast
  show ?thesis
    using Inr v
    by (auto simp: create_patient_def update_patient_def load_save update_conv' Let_def
        model_dump_exclude_id [OF Inr v] split: if_splits)
qed

theorem stored_value_fields_witness:
  "fst (create_patient ex_lib None (ex_patient ''P001'' 160 56)) =
     Inr (201, [(''message'', JStr ''Patient created successfully''),
                (''patient_id'', JStr ''P001'')])
   \<and> map_of (load_data (snd (create_patient ex_lib None (ex_patient ''P001'' 160 56)))) ''P001'' =
        Some [(''name'', JStr ''John Doe''), (''city'', JStr ''Pune''), (''age'', JInt 25),
              (''gender'', JStr ''Male''), (''height'', JFloat (Fin 160)),
              (''weight'', JFloat (Fin 56)),
              (''bmi'', JFloat (Fin (6155857740662047 / 281474976710656))),
              (''verdict'', JStr ''Normal'')]
   \<and> fst (update_patient ex_lib (Some [(''P001'', [])]) ''P001'' (ex_patient ''P002'' 100 31)) =
     Inr [(''message'', JStr ''Patient updated successfully'')]
   \<and> map_of (load_data (snd (update_patient ex_lib (Some [(''P001'', [])]) ''P001''
             (ex_patient ''P002'' 100 31)))) ''P001'' =
        Some [(''name'', JStr ''John Doe''), (''city'', JStr ''Pune''), (''age'', JInt 25),
              (''gender'', JStr ''Male''), (''height'', JFloat (Fin 100)),
              (''weight'', JFloat (Fin 31)), (''bmi'', JFloat (Fin 31)),
              (''verdict'', JStr ''Obese'')]"
proof -
  have c: "fst (create_patient ex_lib None (ex_patient ''P001'' 160 56)) =
     Inr (201, [(''message'', JStr ''Patient created successfully''),
                (''patient_id'', JStr ''P001'')])"
    using ex_dump_exclude [OF bmi_ex_160_56 verdict_ex(10), of "''P001''"]
    by (simp add: create_patient_def load_data_def has_key_def) (simp add: ex_patient_def)
  have u: "fst (update_patient ex_lib (Some [(''P001'', [])]) ''P001'' (ex_patient ''P002'' 100 31)) =
     Inr [(''message'', JStr ''Patient updated successfully'')]"
    using ex_dump_exclude [OF bmi_ex(8) verdict_ex(8), of "''P002''"]
    by (simp add: update_patient_def load_data_def has_key_def)
  have i: "patient_id (ex_patient ''P001'' 160 56) = ''P001''"
    by (simp add: ex_patient_def)
  from stored_value_fields [of ex_lib None "ex_patient ''P001'' 160 56"] c
  have sc: "map_of (load_data (snd (create_patient ex_lib None (ex_patient ''P001'' 160 56)))) ''P001'' =
        Some [(''name'', JStr ''John Doe''), (''city'', JStr ''Pune''), (''age'', JInt 25),
              (''gender'', JStr ''Male''), (''height'', JFloat (Fin 160)),
              (''weight'', JFloat (Fin 56)),
              (''bmi'', JFloat (Fin (6155857740662047 / 281474976710656))),
              (''verdict'', JStr ''Normal'')]"
    unfolding i by (simp add: bmi_ex_160_56 verdict_ex) (simp add: ex_patient_def)
  from stored_value_fields [of ex_lib "Some [(''P001'', [])]" "ex_patient ''P002'' 100 31" _
      "''P001''"] u
  have su: "map_of (load_data (snd (update_patient ex_lib (Some [(''P001'', [])]) ''P001''
             (ex_patient ''P002'' 100 31)))) ''P001'' =
        Some [(''name'', JStr ''John Doe''), (''city'', JStr ''Pune''), (''age'', JInt 25),
              (''gender'', JStr ''Male''), (''height'', JFloat (Fin 100)),
              (''weight'', JFloat (Fin 31)), (''bmi'', JFloat (Fin 31)),
              (''verdict'', JStr ''Obese'')]"
    by (simp add: bmi_ex verdict_ex) (simp add: ex_patient_def)
  from c sc u su show ?thesis by blast
qed

section \<open>The body-mass index\<close>




section \<open>The verdict\<close>

text \<open>
  C3: the verdict follows the threshold table: \<^verbatim>\<open>bmi >= 30\<close> is Obese,
  \<^verbatim>\<open>25 <= bmi < 30\<close> is Overweight, \<^verbatim>\<open>18.5 <= bmi < 25\<close> is Normal and
  \<^verbatim>\<open>bmi < 18.5\<close> is Underweight; at the boundaries 18.5 is Normal, 25 is Overweight
  and 30 is Obese. The verdict only compares the index, so the statement holds for
  every value the index can take.
\<close>

theorem verdict_threshold_table:
  assumes "bmi L p = Inr b"
  shows "(fle (Fin 30) b \<longrightarrow> verdict L p = Inr ''Obese'')
       \<and> (fle (Fin 25) b \<and> flt b (Fin 30) \<longrightarrow> verdict L p = Inr ''Overweight'')
       \<and> (fle (Fin (185 / 10)) b \<and> flt b (Fin 25) \<longrightarrow> verdict L p = Inr ''Normal'')
       \<and> (flt b (Fin (185 / 10)) \<longrightarrow> verdict L p = Inr ''Underweight'')
       \<and> (b = Fin (185 / 10) \<longrightarrow> verdict L p = Inr ''Normal'')
       \<and> (b = Fin 25 \<longrightarrow> verdict L p = Inr ''Overweight'')
       \<and> (b = Fin 30 \<longrightarrow> verdict L p = Inr ''Obese'')"
  using assms by (cases b) (auto simp: verdict_def fle_def flt_def)

theorem verdict_threshold_table_witness:
  "bmi ex_lib (ex_patient ''P001'' 100 (185 / 10)) = Inr (Fin (185 / 10))
   \<and> verdict ex_lib (ex_patient ''P001'' 100 (185 / 10)) = Inr ''Normal''
   \<and> bmi ex_lib (ex_patient ''P001'' 100 25) = Inr (Fin 25)
   \<and> verdict ex_lib (ex_patient ''P001'' 100 25) = Inr ''Overweight''
   \<and> bmi ex_lib (ex_patient ''P001'' 100 30) = Inr (Fin 30)
   \<and> verdict ex_lib (ex_patient ''P001'' 100 30) = Inr ''Obese''
   \<and> bmi ex_lib (ex_patient ''P001'' 100 18) = Inr (Fin 18) \<and> flt (Fin 18) (Fin (185 / 10))
   \<and> verdict ex_lib (ex_patient ''P001'' 100 18) = Inr ''Underweight''
   \<and> bmi ex_lib (ex_patient ''P001'' 100 (59 / 2)) = Inr (Fin (59 / 2))
   \<and> fle (Fin 25) (Fin (59 / 2)) \<and> flt (Fin (59 / 2)) (Fin 30)
   \<and> verdict ex_lib (ex_patient ''P001'' 100 (59 / 2)) = Inr ''Overweight''"
proof -
  have b1: "bmi ex_lib (ex_patient ''P001'' 100 (185 / 10)) = Inr (Fin (185 / 10))"
    using bmi_ex(2) [of "''P001''"] by simp
  note b2 = bmi_ex(5) [of "''P001''"]
  note b3 = bmi_ex(7) [of "''P001''"]
  note b4 = bmi_ex(1) [of "''P001''"]
  note b5 = bmi_ex(6) [of "''P001''"]
  have n: "verdict ex_lib (ex_patient ''P001'' 100 (185 / 10)) = Inr ''Normal''"
    using verdict_threshold_table [OF b1] by blast
  have ov: "verdict ex_lib (ex_patient ''P001'' 100 25) = Inr ''Overweight''"
    using verdict_threshold_table [OF b2] by blast
  have ob: "verdict ex_lib (ex_patient ''P001'' 100 30) = Inr ''Obese''"
    using verdict_threshold_table [OF b3] by blast
  have lt: "flt (Fin 18) (Fin (185 / 10))"
    by (simp add: flt_def)
  have u: "verdict ex_lib (ex_patient ''P001'' 100 18) = Inr ''Underweight''"
    using verdict_threshold_table [OF b4] lt by blast
  have r: "fle (Fin 25) (Fin (59 / 2))" "flt (Fin (59 / 2)) (Fin 30)"
    by (simp_all add: fle_def flt_def)
  have ov2: "verdict ex_lib (ex_patient ''P001'' 100 (59 / 2)) = Inr ''Overweight''"
    using verdict_threshold_table [OF b5] r by blast
  from b1 b2 b3 b4 b5 n ov ob lt u r ov2 show ?thesis by blast
qed

section \<open>Validation\<close>

text \<open>
  C4, as the specification states it, asks that a payload whose name or city is the empty
  string fail validation. The fields \<^verbatim>\<open>name\<close> and \<^verbatim>\<open>city\<close> are declared as
  \<^verbatim>\<open>str\<close> with \<^verbatim>\<open>Field(...)\<close>: required, with no constraint on the length. A
  payload with both strings empty constructs a \<^verbatim>\<open>Patient\<close>, and \<^verbatim>\<open>/create\<close>
  stores it.
\<close>

theorem empty_name_city_counterexample:
  "Patient_validate ex_lib
     [(''id'', JStr ''P001''), (''name'', JStr ''''), (''city'', JStr ''''), (''age'', JInt 25),
      (''gender'', JStr ''Male''), (''height'', JFloat (Fin 175)),
      (''weight'', JFloat (Fin 70))] \<noteq>
     Inl ValidationError
   \<and> Patient_validate ex_lib
     [(''id'', JStr ''P001''), (''name'', JStr ''''), (''city'', JStr ''''), (''age'', JInt 25),
      (''gender'', JStr ''Male''), (''height'', JFloat (Fin 175)),
      (''weight'', JFloat (Fin 70))] =
     Inr \<lparr>patient_id = ''P001'', name = '''', city = '''', age = 25, gender = ''Male'',
          height = Fin 175, weight = Fin 70\<rparr>
   \<and> post_create ex_lib None
     [(''id'', JStr ''P001''), (''name'', JStr ''''), (''city'', JStr ''''), (''age'', JInt 25),
      (''gender'', JStr ''Male''), (''height'', JFloat (Fin 100)),
      (''weight'', JFloat (Fin 20))] =
     (Inr (201, [(''message'', JStr ''Patient created successfully''),
                 (''patient_id'', JStr ''P001'')]),
      Some [(''P001'', [(''name'', JStr ''''), (''city'', JStr ''''), (''age'', JInt 25),
           (''gender'', JStr ''Male''), (''height'', JFloat (Fin 100)),
           (''weight'', JFloat (Fin 20)), (''bmi'', JFloat (Fin 20)),
           (''verdict'', JStr ''Normal'')])])"
proof -
  let ?p = "\<lparr>patient_id = ''P001'', name = '''', city = '''', age = 25, gender = ''Male'',
          height = Fin 100, weight = Fin 20\<rparr>"
  have "bmi ex_lib ?p = bmi ex_lib (ex_patient ''P001'' 100 20)"
    by (rule bmi_cong) (simp_all add: ex_patient_def)
  then have b: "bmi ex_lib ?p = Inr (Fin 20)"
    by (simp add: bmi_ex)
  then have v: "verdict ex_lib ?p = Inr ''Normal''"
    by (simp add: verdict_def fle_def)
  show ?thesis
    using model_dump_exclude_id [OF b v]
    by (simp add: Patient_validate_typed post_create_def create_patient_def load_data_def
        save_data_def has_key_def flt_def)
qed

text \<open>
  C4 (amended): construction does not look at the contents of \<^verbatim>\<open>name\<close> and
  \<^verbatim>\<open>city\<close>. A payload whose seven fields have the declared types is accepted exactly
  when \<^verbatim>\<open>age > 0\<close>, \<^verbatim>\<open>height > 0\<close> and \<^verbatim>\<open>weight > 0\<close>, whatever the strings are;
  and a payload that fails validation is rejected by create and by update with a
  ValidationError, the file being left as it was.
\<close>

theorem validation_checks:
  "Patient_validate L [(''id'', JStr i), (''name'', JStr n), (''city'', JStr c),
       (''age'', JInt a), (''gender'', JStr g), (''height'', JFloat h), (''weight'', JFloat w)] =
     (if 0 < a \<and> flt (Fin 0) h \<and> flt (Fin 0) w
      then Inr \<lparr>patient_id = i, name = n, city = c, age = a, gender = g,
                 height = h, weight = w\<rparr>
      else Inl ValidationError)
   \<and> (Patient_validate L body = Inl e \<longrightarrow>
        e = ValidationError
        \<and> post_create L f body = (Inl ValidationError, f)
        \<and> put_update L f pid body = (Inl ValidationError, f))"
  by (auto simp: Patient_validate_typed post_create_def put_update_def
      dest: Patient_validate_error)

theorem validation_checks_witness:
  "flt (Fin 0) (Fin 175) \<and> flt (Fin 0) (Fin 70)
   \<and> Patient_validate ex_lib [(''id'', JStr ''P001''), (''name'', JStr ''''), (''city'', JStr ''''),
       (''age'', JInt 25), (''gender'', JStr ''Male''), (''height'', JFloat (Fin 175)),
       (''weight'', JFloat (Fin 70))] =
     Inr \<lparr>patient_id = ''P001'', name = '''', city = '''', age = 25, gender = ''Male'',
          height = Fin 175, weight = Fin 70\<rparr>
   \<and> Patient_validate ex_lib [(''id'', JStr ''P001''), (''name'', JStr ''John Doe''),
       (''city'', JStr ''Pune''), (''age'', JInt 0), (''gender'', JStr ''Male''),
       (''height'', JFloat (Fin 175)), (''weight'', JFloat (Fin 70))] = Inl ValidationError
   \<and> Patient_validate ex_lib [(''id'', JStr ''P001''), (''name'', JStr ''John Doe''),
       (''city'', JStr ''Pune''), (''age'', JInt 25), (''gender'', JStr ''Male''),
       (''height'', JFloat (Fin 0)), (''weight'', JFloat (Fin 70))] = Inl ValidationError
   \<and> Patient_validate ex_lib [(''id'', JStr ''P001'')] = Inl ValidationError
   \<and> post_create ex_lib (Some [(''P001'', [])]) [(''id'', JStr ''P001'')] =
       (Inl ValidationError, Some [(''P001'', [])])
   \<and> put_update ex_lib (Some [(''P001'', [])]) ''P001'' [(''id'', JStr ''P001'')] =
       (Inl ValidationError, Some [(''P001'', [])])"
proof -
  have v: "Patient_validate ex_lib [(''id'', JStr ''P001'')] = Inl ValidationError"
    by (simp add: Patient_validate_def str_field_def)
  have p: "flt (Fin 0) (Fin 175)" "flt (Fin 0) (Fin 70)" "\<not> flt (Fin 0) (Fin 0)"
    by (simp_all add: flt_def)
  have a: "Patient_validate ex_lib [(''id'', JStr ''P001''), (''name'', JStr ''''),
       (''city'', JStr ''''), (''age'', JInt 25), (''gender'', JStr ''Male''),
       (''height'', JFloat (Fin 175)), (''weight'', JFloat (Fin 70))] =
     Inr \<lparr>patient_id = ''P001'', name = '''', city = '''', age = 25, gender = ''Male'',
          height = Fin 175, weight = Fin 70\<rparr>"
    using validation_checks [of ex_lib "''P001''" "''''" "''''" 25 "''Male''" "Fin 175" "Fin 70"] p
    by simp
  have b: "Patient_validate ex_lib [(''id'', JStr ''P001''), (''name'', JStr ''John Doe''),
       (''city'', JStr ''Pune''), (''age'', JInt 0), (''gender'', JStr ''Male''),
       (''height'', JFloat (Fin 175)), (''weight'', JFloat (Fin 70))] = Inl ValidationError"
    using validation_checks [of ex_lib "''P001''" "''John Doe''" "''Pune''" 0 "''Male''"
        "Fin 175" "Fin 70"]
    by simp
  have z: "Patient_validate ex_lib [(''id'', JStr ''P001''), (''name'', JStr ''John Doe''),
       (''city'', JStr ''Pune''), (''age'', JInt 25), (''gender'', JStr ''Male''),
       (''height'', JFloat (Fin 0)), (''weight'', JFloat (Fin 70))] = Inl ValidationError"
    using validation_checks [of ex_lib "''P001''" "''John Doe''" "''Pune''" 25 "''Male''"
        "Fin 0" "Fin 70"] p
    by simp
  have c: "post_create ex_lib (Some [(''P001'', [])]) [(''id'', JStr ''P001'')] =
       (Inl ValidationError, Some [(''P001'', [])])
     \<and> put_update ex_lib (Some [(''P001'', [])]) ''P001'' [(''id'', JStr ''P001'')] =
       (Inl ValidationError, Some [(''P001'', [])])"
    using validation_checks [of ex_lib _ _ _ _ _ _ _ "[(''id'', JStr ''P001'')]" ValidationError
        "Some [(''P001'', [])]" "''P001''"] v
    by blast
  from p a b z v c show ?thesis by blast
qed

section \<open>Create and update: failures\<close>

text \<open>
  C5: a create whose payload is valid and whose ID is already a key of the store fails
  with the 400 response "Patient with this ID already exists" (the specification's
  ConflictError), and the file is left as it was: nothing is saved.
\<close>

theorem create_existing_id_conflict:
  assumes "Patient_validate L body = Inr p"
      and "has_key (load_data f) (patient_id p)"
  shows "post_create L f body =
           (Inl (HTTPException 400 ''Patient with this ID already exists''), f)
       \<and> create_patient L f p =
           (Inl (HTTPException 400 ''Patient with this ID already exists''), f)"
  using assms by (simp add: post_create_def create_patient_def)

theorem create_existing_id_conflict_witness:
  "Patient_validate ex_lib (ex_body ''P001'' 100 20) = Inr (ex_patient ''P001'' 100 20)
   \<and> has_key (load_data (Some [(''P001'', [(''name'', JStr ''Old'')])]))
        (patient_id (ex_patient ''P001'' 100 20))
   \<and> post_create ex_lib (Some [(''P001'', [(''name'', JStr ''Old'')])])
        (ex_body ''P001'' 100 20) =
        (Inl (HTTPException 400 ''Patient with this ID already exists''),
         Some [(''P001'', [(''name'', JStr ''Old'')])])
   \<and> create_patient ex_lib (Some [(''P001'', [(''name'', JStr ''Old'')])])
        (ex_patient ''P001'' 100 20) =
        (Inl (HTTPException 400 ''Patient with this ID already exists''),
         Some [(''P001'', [(''name'', JStr ''Old'')])])"
proof -
  have v: "Patient_validate ex_lib (ex_body ''P001'' 100 20) = Inr (ex_patient ''P001'' 100 20)"
    by (simp add: ex_body_valid)
  have k: "has_key (load_data (Some [(''P001'', [(''name'', JStr ''Old'')])]))
        (patient_id (ex_patient ''P001'' 100 20))"
    by (simp add: has_key_def load_data_def ex_patient_def)
  from create_existing_id_conflict [OF v k] v k show ?thesis by blast
qed

text \<open>
  C6: an update whose patient ID is not a key of the store fails with the 404 response
  "Patient not found" (the specification's NotFoundError), and the file is left as it
  was. This holds for the endpoint function and for a request with a valid body.
\<close>

theorem update_missing_id_not_found:
  assumes "\<not> has_key (load_data f) pid"
  shows "update_patient L f pid p = (Inl (HTTPException 404 ''Patient not found''), f)
       \<and> (Patient_validate L body = Inr p \<longrightarrow>
            put_update L f pid body = (Inl (HTTPException 404 ''Patient not found''), f))"
  using assms by (simp add: update_patient_def put_update_def)

theorem update_missing_id_not_found_witness:
  "\<not> has_key (load_data (Some [(''P001'', [(''name'', JStr ''Old'')])])) ''P002''
   \<and> Patient_validate ex_lib (ex_body ''P002'' 100 20) = Inr (ex_patient ''P002'' 100 20)
   \<and> update_patient ex_lib (Some [(''P001'', [(''name'', JStr ''Old'')])]) ''P002''
        (ex_patient ''P002'' 100 20) =
      (Inl (HTTPException 404 ''Patient not found''),
       Some [(''P001'', [(''name'', JStr ''Old'')])])
   \<and> put_update ex_lib (Some [(''P001'', [(''name'', JStr ''Old'')])]) ''P002''
        (ex_body ''P002'' 100 20) =
      (Inl (HTTPException 404 ''Patient not found''),
       Some [(''P001'', [(''name'', JStr ''Old'')])])"
proof -
  have k: "\<not> has_key (load_data (Some [(''P001'', [(''name'', JStr ''Old'')])])) ''P002''"
    by (simp add: has_key_def load_data_def)
  have v: "Patient_validate ex_lib (ex_body ''P002'' 100 20) = Inr (ex_patient ''P002'' 100 20)"
    by (simp add: ex_body_valid)
  from update_missing_id_not_found [OF k, of ex_lib "ex_patient ''P002'' 100 20"
      "ex_body ''P002'' 100 20"] k v
  show ?thesis by blast
qed

section \<open>Sort\<close>






lemma sort_desc_ties_example:
  "sort_patients ex_lib
     (Some [(''P001'', ex_stored 100 24 24 ''Normal''),
            (''P002'', ex_stored 100 31 31 ''Obese''),
            (''P003'', ex_stored 100 24 24 ''Normal'')])
     ''bmi'' (Some ''desc'') =
   Inr [ex_body ''P002'' 100 31 @ [(''bmi'', JFloat (Fin 31)), (''verdict'', JStr ''Obese'')],
        ex_body ''P001'' 100 24 @ [(''bmi'', JFloat (Fin 24)), (''verdict'', JStr ''Normal'')],
        ex_body ''P003'' 100 24 @ [(''bmi'', JFloat (Fin 24)), (''verdict'', JStr ''Normal'')]]"
  by (simp add: sort_patients_def valid_fields_def load_data_def patients_of_def ex_stored_init
      getattr_def bmi_ex py_sorted_def
      ex_dump [OF bmi_ex(8) verdict_ex(8)] ex_dump [OF bmi_ex(4) verdict_ex(4)])

lemma sort_bmi_rounding_example:
  "sort_patients ex_lib
     (Some [(''A'', ex_stored 100 (175 / 8) (6158672490429153 / 281474976710656) ''Normal''),
            (''B'', ex_stored 160 56 (6155857740662047 / 281474976710656) ''Normal'')])
     ''bmi'' None =
   Inr [ex_body ''B'' 160 56 @
          [(''bmi'', JFloat (Fin (6155857740662047 / 281474976710656))),
           (''verdict'', JStr ''Normal'')],
        ex_body ''A'' 100 (175 / 8) @
          [(''bmi'', JFloat (Fin (6158672490429153 / 281474976710656))),
           (''verdict'', JStr ''Normal'')]]"
  by (simp add: sort_patients_def valid_fields_def load_data_def patients_of_def ex_stored_init
      getattr_def bmi_ex_tie bmi_ex_160_56 py_sorted_def
      ex_dump [OF bmi_ex_tie verdict_ex(9)] ex_dump [OF bmi_ex_160_56 verdict_ex(10)])

lemma sort_height_example:
  "sort_patients ex_lib
     (Some [(''B'', ex_stored 160 56 (6155857740662047 / 281474976710656) ''Normal''),
            (''A'', ex_stored 100 (175 / 8) (6158672490429153 / 281474976710656) ''Normal'')])
     ''height'' None =
   Inr [ex_body ''A'' 100 (175 / 8) @
          [(''bmi'', JFloat (Fin (6158672490429153 / 281474976710656))),
           (''verdict'', JStr ''Normal'')],
        ex_body ''B'' 160 56 @
          [(''bmi'', JFloat (Fin (6155857740662047 / 281474976710656))),
           (''verdict'', JStr ''Normal'')]]"
  by (simp add: sort_patients_def valid_fields_def load_data_def patients_of_def ex_stored_init
      getattr_def py_sorted_def ex_fields
      ex_dump [OF bmi_ex_tie verdict_ex(9)] ex_dump [OF bmi_ex_160_56 verdict_ex(10)])

text \<open>A record whose index raises makes the sort raise, whatever the key.\<close>

lemma sort_raises_example:
  "sort_patients ex_lib
     (Some [(''P001'', ex_stored 100 18 18 ''Underweight''),
            (''P002'', ex_stored tiny 70 0 ''Underweight'')])
     ''height'' None = Inl ZeroDivisionError"
  using tiny_positive
  by (simp add: sort_patients_def valid_fields_def load_data_def patients_of_def ex_stored_init
      getattr_def py_sorted_def ex_fields
      model_dump_raises [OF bmi_ex_tiny] ex_dump [OF bmi_ex(1) verdict_ex(1)])


section \<open>Create, then get\<close>

text \<open>
  C8, as the specification states it, asks that for every valid payload with a fresh ID
  create followed by get return the submitted fields with the index and the verdict. A
  payload with a height of \<open>1e-160\<close> is valid (the height is above zero) and its ID is
  fresh, but the square of the height in metres underflows to zero: the dump that
  create stores raises ZeroDivisionError, nothing is written, and get does not find the ID.
  The same happens, whatever the library's \<^verbatim>\<open>pow\<close>, for the smallest height above
  zero.
\<close>

theorem create_then_get_counterexample:
  "Patient_validate ex_lib (ex_body ''P001'' tiny 70) = Inr (ex_patient ''P001'' tiny 70)
   \<and> \<not> has_key (load_data None) ''P001''
   \<and> post_create ex_lib None (ex_body ''P001'' tiny 70) = (Inl ZeroDivisionError, None)
   \<and> get_patient ex_lib (snd (post_create ex_lib None (ex_body ''P001'' tiny 70))) ''P001'' =
       Inl (HTTPException 404 ''Patient not found'')
   \<and> Patient_validate ex_lib (ex_body ''P001'' smallest 70) =
       Inr (ex_patient ''P001'' smallest 70)
   \<and> post_create ex_lib None (ex_body ''P001'' smallest 70) = (Inl ZeroDivisionError, None)
   \<and> get_patient ex_lib (snd (post_create ex_lib None (ex_body ''P001'' smallest 70)))
        ''P001'' =
       Inl (HTTPException 404 ''Patient not found'')"
  using tiny_positive smallest_positive
  by (simp add: ex_body_valid post_create_def create_patient_def load_data_def has_key_def
      ex_fields model_dump_exclude_raises [OF bmi_ex_tiny]
      model_dump_exclude_raises [OF bmi_ex_smallest] get_patient_def)

text \<open>
  C8 (amended): when the payload validates to \<open>p\<close>, the ID of \<open>p\<close> is not a key of the
  store, and the index of \<open>p\<close> evaluates (the four float operations of
  \<^verbatim>\<open>round(weight / ((height / 100) ** 2), 2)\<close> return \<open>x\<close>, \<open>y\<close>, \<open>z\<close> and \<open>b\<close>), create
  answers 201 and a get of that ID on the file it leaves returns the seven fields of \<open>p\<close>
  followed by \<^verbatim>\<open>bmi\<close>, which is \<open>b\<close>, and the \<^verbatim>\<open>verdict\<close> of the threshold table at
  \<open>b\<close>. When the index raises, create fails with that exception and leaves the file as
  it was.
\<close>

theorem create_then_get:
  assumes "Patient_validate L body = Inr p"
      and "\<not> has_key (load_data f) (patient_id p)"
  shows "(float_truediv (height p) (Fin 100) = Inr x \<and> float_pow2 (c_pow2 L) x = Inr y
            \<and> float_truediv (weight p) y = Inr z \<and> float_round2 z = Inr b \<longrightarrow>
          fst (post_create L f body) =
            Inr (201, [(''message'', JStr ''Patient created successfully''),
                       (''patient_id'', JStr (patient_id p))])
          \<and> get_patient L (snd (post_create L f body)) (patient_id p) =
            Inr [(''id'', JStr (patient_id p)), (''name'', JStr (name p)),
                 (''city'', JStr (city p)), (''age'', JInt (age p)),
                 (''gender'', JStr (gender p)), (''height'', JFloat (height p)),
                 (''weight'', JFloat (weight p)), (''bmi'', JFloat b),
                 (''verdict'',
                  JStr (if fle (Fin 30) b then ''Obese''
                        else if fle (Fin 25) b then ''Overweight''
                        else if fle (Fin (185 / 10)) b then ''Normal''
                        else ''Underweight''))])
       \<and> (bmi L p = Inl e \<longrightarrow> post_create L f body = (Inl e, f))"
proof (intro conjI impI)
  assume "bmi L p = Inl e"
  with assms show "post_create L f body = (Inl e, f)"
    by (simp add: post_create_def create_patient_def model_dump_exclude_raises)
next
  let ?v = "if fle (Fin 30) b then ''Obese''
            else if fle (Fin 25) b then ''Overweight''
            else if fle (Fin (185 / 10)) b then ''Normal''
            else ''Underweight''"
  let ?d = "[(''name'', JStr (name p)), (''city'', JStr (city p)), (''age'', JInt (age p)),
             (''gender'', JStr (gender p)), (''height'', JFloat (height p)),
             (''weight'', JFloat (weight p)), (''bmi'', JFloat b), (''verdict'', JStr ?v)]"
  assume chain: "float_truediv (height p) (Fin 100) = Inr x \<and> float_pow2 (c_pow2 L) x = Inr y
            \<and> float_truediv (weight p) y = Inr z \<and> float_round2 z = Inr b"
  then have b: "bmi L p = Inr b"
    by (simp add: bmi_def)
  then have v: "verdict L p = Inr ?v"
    by (rule verdict_of_bmi)
  from assms(1) have c: "0 < age p" "flt (Fin 0) (height p)" "flt (Fin 0) (weight p)"
    by (simp_all add: Patient_validate_constraints)
  have created: "post_create L f body =
          (Inr (201, [(''message'', JStr ''Patient created successfully''),
                      (''patient_id'', JStr (patient_id p))]),
           save_data (AList.update (patient_id p) ?d (load_data f)))"
    using assms model_dump_exclude_id [OF b v]
    by (simp add: post_create_def create_patient_def)
  then show "fst (post_create L f body) =
            Inr (201, [(''message'', JStr ''Patient created successfully''),
                       (''patient_id'', JStr (patient_id p))])"
    by simp
  have "get_patient L (save_data (AList.update (patient_id p) ?d (load_data f))) (patient_id p) =
        model_dump L p"
    using Patient_init_stored [OF c, of L "patient_id p" b ?v]
    by (simp add: get_patient_def load_save update_conv')
  with created model_dump_value [OF b v]
  show "get_patient L (snd (post_create L f body)) (patient_id p) =
            Inr [(''id'', JStr (patient_id p)), (''name'', JStr (name p)),
                 (''city'', JStr (city p)), (''age'', JInt (age p)),
                 (''gender'', JStr (gender p)), (''height'', JFloat (height p)),
                 (''weight'', JFloat (weight p)), (''bmi'', JFloat b), (''verdict'', JStr ?v)]"
    by simp
qed

theorem create_then_get_witness:
  "Patient_validate ex_lib (ex_body ''P002'' 160 56) = Inr (ex_patient ''P002'' 160 56)
   \<and> \<not> has_key (load_data (Some [(''P001'', [(''name'', JStr ''Old'')])]))
          (patient_id (ex_patient ''P002'' 160 56))
   \<and> float_truediv (Fin 160) (Fin 100) = Inr (Fin (3602879701896397 / 2251799813685248))
   \<and> float_pow2 (c_pow2 ex_lib) (Fin (3602879701896397 / 2251799813685248)) =
       Inr (Fin (1441151880758559 / 562949953421312))
   \<and> float_truediv (Fin 56) (Fin (1441151880758559 / 562949953421312)) =
       Inr (Fin (6157265115545599 / 281474976710656))
   \<and> float_round2 (Fin (6157265115545599 / 281474976710656)) =
       Inr (Fin (6155857740662047 / 281474976710656))
   \<and> fst (post_create ex_lib (Some [(''P001'', [(''name'', JStr ''Old'')])])
             (ex_body ''P002'' 160 56)) =
        Inr (201, [(''message'', JStr ''Patient created successfully''),
                   (''patient_id'', JStr ''P002'')])
   \<and> get_patient ex_lib (snd (post_create ex_lib (Some [(''P001'', [(''name'', JStr ''Old'')])])
             (ex_body ''P002'' 160 56))) ''P002'' =
        Inr (ex_body ''P002'' 160 56 @
             [(''bmi'', JFloat (Fin (6155857740662047 / 281474976710656))),
              (''verdict'', JStr ''Normal'')])
   \<and> Patient_validate ex_lib (ex_body ''P002'' huge 70) = Inr (ex_patient ''P002'' huge 70)
   \<and> bmi ex_lib (ex_patient ''P002'' huge 70) = Inl OverflowError
   \<and> post_create ex_lib (Some [(''P001'', [(''name'', JStr ''Old'')])])
        (ex_body ''P002'' huge 70) =
       (Inl OverflowError, Some [(''P001'', [(''name'', JStr ''Old'')])])"
proof -
  let ?f = "Some [(''P001'', [(''name'', JStr ''Old'')])]"
  have v: "Patient_validate ex_lib (ex_body ''P002'' 160 56) = Inr (ex_patient ''P002'' 160 56)"
    by (simp add: ex_body_valid)
  have k: "\<not> has_key (load_data ?f) (patient_id (ex_patient ''P002'' h w))" for h w
    by (simp add: has_key_def load_data_def ex_fields)
  have o1: "float_truediv (Fin 160) (Fin 100) =
      Inr (Fin (3602879701896397 / 2251799813685248))"
    using fl_1_6 by (simp add: float_truediv_def)
  have o2: "float_pow2 (c_pow2 ex_lib) (Fin (3602879701896397 / 2251799813685248)) =
       Inr (Fin (1441151880758559 / 562949953421312))"
    using fl_1_6_squared by (simp add: float_pow2_def ex_lib_def)
  have o3: "float_truediv (Fin 56) (Fin (1441151880758559 / 562949953421312)) =
       Inr (Fin (6157265115545599 / 281474976710656))"
    using fl_56_by_2_56 by (simp add: float_truediv_def)
  have o4: "float_round2 (Fin (6157265115545599 / 281474976710656)) =
       Inr (Fin (6155857740662047 / 281474976710656))"
    using fl_21_87 by (simp add: float_round2_def round_half_even_def)
  have t: "fle (Fin 30) (Fin (6155857740662047 / 281474976710656)) = False"
    "fle (Fin 25) (Fin (6155857740662047 / 281474976710656)) = False"
    "fle (Fin (185 / 10)) (Fin (6155857740662047 / 281474976710656)) = True"
    by (simp_all add: fle_def)
  from create_then_get [OF v k, where x = "Fin (3602879701896397 / 2251799813685248)"
      and y = "Fin (1441151880758559 / 562949953421312)"
      and z = "Fin (6157265115545599 / 281474976710656)"
      and b = "Fin (6155857740662047 / 281474976710656)"] o1 o2 o3 o4
  have g: "fst (post_create ex_lib ?f (ex_body ''P002'' 160 56)) =
        Inr (201, [(''message'', JStr ''Patient created successfully''),
                   (''patient_id'', JStr ''P002'')])
   \<and> get_patient ex_lib (snd (post_create ex_lib ?f (ex_body ''P002'' 160 56))) ''P002'' =
        Inr (ex_body ''P002'' 160 56 @
             [(''bmi'', JFloat (Fin (6155857740662047 / 281474976710656))),
              (''verdict'', JStr ''Normal'')])"
    unfolding t ex_fields by (simp add: ex_patient_def ex_body_def)
  have v': "Patient_validate ex_lib (ex_body ''P002'' huge 70) = Inr (ex_patient ''P002'' huge 70)"
    using huge_positive by (simp add: ex_body_valid)
  from create_then_get [OF v' k, where e = OverflowError] bmi_ex_huge
  have r: "post_create ex_lib ?f (ex_body ''P002'' huge 70) = (Inl OverflowError, ?f)"
    by blast
  from v k [of 160 56] o1 o2 o3 o4 g v' bmi_ex_huge [of "''P002''"] r show ?thesis
    by blast
qed

section \<open>A missing file\<close>

text \<open>
  C9: \<open>load_data\<close> on a missing file is the empty mapping, and every endpoint gives on a
  missing file the result, and leaves the store contents, that it gives on a file holding
  the empty mapping.
\<close>

theorem missing_file_is_empty_store:
  "load_data None = []
   \<and> view_patients None = view_patients (Some [])
   \<and> get_patient L None pid = get_patient L (Some []) pid
   \<and> fst (create_patient L None p) = fst (create_patient L (Some []) p)
   \<and> load_data (snd (create_patient L None p)) = load_data (snd (create_patient L (Some []) p))
   \<and> (bmi L p = Inr b \<longrightarrow> create_patient L None p = create_patient L (Some []) p)
   \<and> fst (update_patient L None pid p) = fst (update_patient L (Some []) pid p)
   \<and> load_data (snd (update_patient L None pid p)) = load_data (snd (update_patient L (Some []) pid p))
   \<and> fst (delete_patient None pid) = fst (delete_patient (Some []) pid)
   \<and> load_data (snd (delete_patient None pid)) = load_data (snd (delete_patient (Some []) pid))
   \<and> sort_patients L None sort_by order_param = sort_patients L (Some []) sort_by order_param"
proof -
  have c: "fst (create_patient L None p) = fst (create_patient L (Some []) p)
      \<and> load_data (snd (create_patient L None p)) = load_data (snd (create_patient L (Some []) p))"
    by (cases "model_dump_exclude L {''id''} p")
      (simp_all add: create_patient_def load_data_def has_key_def save_data_def)
  have s: "bmi L p = Inr b \<longrightarrow> create_patient L None p = create_patient L (Some []) p"
  proof
    assume b: "bmi L p = Inr b"
    then obtain v where "verdict L p = Inr v"
      using verdict_total by blast
    from model_dump_exclude_id [OF b this]
    show "create_patient L None p = create_patient L (Some []) p"
      by (simp add: create_patient_def load_data_def has_key_def)
  qed
  have r: "load_data None = []
   \<and> view_patients None = view_patients (Some [])
   \<and> get_patient L None pid = get_patient L (Some []) pid
   \<and> fst (update_patient L None pid p) = fst (update_patient L (Some []) pid p)
   \<and> load_data (snd (update_patient L None pid p)) = load_data (snd (update_patient L (Some []) pid p))
   \<and> fst (delete_patient None pid) = fst (delete_patient (Some []) pid)
   \<and> load_data (snd (delete_patient None pid)) = load_data (snd (delete_patient (Some []) pid))"
    by (simp add: load_data_def view_patients_def get_patient_def
        update_patient_def delete_patient_def has_key_def)
  have l: "load_data None = load_data (Some [])"
    by (simp add: load_data_def)
  have q: "sort_patients L None sort_by order_param =
      sort_patients L (Some []) sort_by order_param"
    by (simp only: sort_patients_def l)
  from c s r q show ?thesis by blast
qed

theorem missing_file_is_empty_store_witness:
  "load_data None = []
   \<and> view_patients None = []
   \<and> get_patient ex_lib None ''P001'' = Inl (HTTPException 404 ''Patient not found'')
   \<and> get_patient ex_lib (Some []) ''P001'' = Inl (HTTPException 404 ''Patient not found'')
   \<and> bmi ex_lib (ex_patient ''P001'' 100 20) = Inr (Fin 20)
   \<and> create_patient ex_lib None (ex_patient ''P001'' 100 20) =
       (Inr (201, [(''message'', JStr ''Patient created successfully''),
                   (''patient_id'', JStr ''P001'')]),
        Some [(''P001'', ex_stored 100 20 20 ''Normal'')])
   \<and> create_patient ex_lib (Some []) (ex_patient ''P001'' 100 20) =
       create_patient ex_lib None (ex_patient ''P001'' 100 20)
   \<and> create_patient ex_lib None (ex_patient ''P001'' tiny 70) = (Inl ZeroDivisionError, None)
   \<and> fst (create_patient ex_lib (Some []) (ex_patient ''P001'' tiny 70)) = Inl ZeroDivisionError
   \<and> load_data (snd (create_patient ex_lib (Some []) (ex_patient ''P001'' tiny 70))) = []
   \<and> update_patient ex_lib None ''P001'' (ex_patient ''P001'' 100 20) =
       (Inl (HTTPException 404 ''Patient not found''), None)
   \<and> delete_patient None ''P001'' = (Inl (HTTPException 404 ''Patient not found''), None)
   \<and> sort_patients ex_lib None ''bmi'' None = Inr []
   \<and> sort_patients ex_lib (Some []) ''bmi'' None = Inr []"
proof -
  have a: "get_patient ex_lib None ''P001'' = Inl (HTTPException 404 ''Patient not found'')"
    by (simp add: get_patient_def load_data_def)
  have c: "create_patient ex_lib None (ex_patient ''P001'' 100 20) =
       (Inr (201, [(''message'', JStr ''Patient created successfully''),
                   (''patient_id'', JStr ''P001'')]),
        Some [(''P001'', ex_stored 100 20 20 ''Normal'')])"
    using ex_dump_exclude [OF bmi_ex(3) verdict_ex(3), of "''P001''"]
    by (simp add: create_patient_def load_data_def save_data_def has_key_def ex_fields)
  have t: "create_patient ex_lib None (ex_patient ''P001'' tiny 70) = (Inl ZeroDivisionError, None)"
    by (simp add: create_patient_def load_data_def has_key_def
        model_dump_exclude_raises [OF bmi_ex_tiny])
  have u: "update_patient ex_lib None ''P001'' (ex_patient ''P001'' 100 20) =
       (Inl (HTTPException 404 ''Patient not found''), None)"
    by (simp add: update_patient_def load_data_def has_key_def)
  have d: "delete_patient None ''P001'' = (Inl (HTTPException 404 ''Patient not found''), None)"
    by (simp add: delete_patient_def load_data_def has_key_def)
  have s: "sort_patients ex_lib None ''bmi'' None = Inr []"
    by (simp add: sort_patients_def valid_fields_def load_data_def patients_of_def py_sorted_def)
  have v: "view_patients None = []"
    by (simp add: view_patients_def load_data_def)
  note m1 = missing_file_is_empty_store [where L = ex_lib and pid = "''P001''"
      and p = "ex_patient ''P001'' 100 20" and b = "Fin 20" and sort_by = "''bmi''"
      and order_param = None]
  note m2 = missing_file_is_empty_store [where L = ex_lib and pid = "''P001''"
      and p = "ex_patient ''P001'' tiny 70" and b = "Fin 20" and sort_by = "''bmi''"
      and order_param = None]
  from m1 a have a': "get_patient ex_lib (Some []) ''P001'' =
      Inl (HTTPException 404 ''Patient not found'')"
    by simp
  from m1 bmi_ex(3) [of "''P001''"]
  have c': "create_patient ex_lib (Some []) (ex_patient ''P001'' 100 20) =
       create_patient ex_lib None (ex_patient ''P001'' 100 20)"
    by simp
  from m2 t have t': "fst (create_patient ex_lib (Some []) (ex_patient ''P001'' tiny 70)) =
      Inl ZeroDivisionError"
    "load_data (snd (create_patient ex_lib (Some []) (ex_patient ''P001'' tiny 70))) = []"
    by (simp_all add: load_data_def)
  from m1 s have s': "sort_patients ex_lib (Some []) ''bmi'' None = Inr []"
    by simp
  from m1 a a' bmi_ex(3) [of "''P001''"] c c' t t' u d s s' v show ?thesis
    by simp
qed

section \<open>Update: what changes\<close>

text \<open>
  C10: a successful update (the endpoint returns its message: the path's ID is a key and
  the dump of the payload does not raise) stores the dump of the payload, without its
  ID, under the ID of the path; every other key, the payload's own ID among them when
  it differs, keeps the value it had, and the keys of the store and their order are the
  same as before, so that no entry is created.
\<close>

theorem update_stores_under_path_id:
  assumes "fst (update_patient L f pid p) = Inr r"
  shows "r = [(''message'', JStr ''Patient updated successfully'')]
       \<and> has_key (load_data f) pid
       \<and> (\<exists>b v. bmi L p = Inr b \<and> verdict L p = Inr v
            \<and> map_of (load_data (snd (update_patient L f pid p))) pid =
                Some [(''name'', JStr (name p)), (''city'', JStr (city p)),
                      (''age'', JInt (age p)), (''gender'', JStr (gender p)),
                      (''height'', JFloat (height p)), (''weight'', JFloat (weight p)),
                      (''bmi'', JFloat b), (''verdict'', JStr v)])
       \<and> (\<forall>k. k \<noteq> pid \<longrightarrow>
             map_of (load_data (snd (update_patient L f pid p))) k = map_of (load_data f) k)
       \<and> (patient_id p \<noteq> pid \<longrightarrow>
             map_of (load_data (snd (update_patient L f pid p))) (patient_id p) =
             map_of (load_data f) (patient_id p))
       \<and> map fst (load_data (snd (update_patient L f pid p))) = map fst (load_data f)"
proof -
  from assms have k: "has_key (load_data f) pid"
    by (auto simp: update_patient_def Let_def split: if_splits)
  from assms k obtain b where b: "bmi L p = Inr b"
    by (cases "bmi L p") (simp_all add: update_patient_def model_dump_exclude_raises)
  then obtain v where v: "verdict L p = Inr v"
    using verdict_total by blast
  let ?d = "[(''name'', JStr (name p)), (''city'', JStr (city p)), (''age'', JInt (age p)),
             (''gender'', JStr (gender p)), (''height'', JFloat (height p)),
             (''weight'', JFloat (weight p)), (''bmi'', JFloat b), (''verdict'', JStr v)]"
  have u: "update_patient L f pid p =
      (Inr [(''message'', JStr ''Patient updated successfully'')],
       save_data (AList.update pid ?d (load_data f)))"
    using k model_dump_exclude_id [OF b v] by (simp add: update_patient_def)
  with assms have "r = [(''message'', JStr ''Patient updated successfully'')]"
    by simp
  moreover have "map_of (load_data (snd (update_patient L f pid p))) pid = Some ?d"
    by (simp add: u load_save update_conv')
  moreover have "\<forall>k. k \<noteq> pid \<longrightarrow>
      map_of (load_data (snd (update_patient L f pid p))) k = map_of (load_data f) k"
    by (simp add: u load_save update_conv')
  moreover have "map fst (load_data (snd (update_patient L f pid p))) = map fst (load_data f)"
    using k by (simp add: u load_save update_keys has_key_iff)
  ultimately show ?thesis
    using k b v by blast
qed

theorem update_stores_under_path_id_witness:
  "update_patient ex_lib (Some [(''P001'', [(''name'', JStr ''Old'')])]) ''P001''
        (ex_patient ''P002'' 160 56) =
      (Inr [(''message'', JStr ''Patient updated successfully'')],
       Some [(''P001'', ex_stored 160 56 (6155857740662047 / 281474976710656) ''Normal'')])
   \<and> patient_id (ex_patient ''P002'' 160 56) \<noteq> ''P001''
   \<and> map_of (load_data (snd (update_patient ex_lib (Some [(''P001'', [(''name'', JStr ''Old'')])])
        ''P001'' (ex_patient ''P002'' 160 56)))) ''P002'' = None
   \<and> map fst (load_data (snd (update_patient ex_lib (Some [(''P001'', [(''name'', JStr ''Old'')])])
        ''P001'' (ex_patient ''P002'' 160 56)))) = [''P001'']
   \<and> update_patient ex_lib (Some [(''P001'', [(''name'', JStr ''Old'')])]) ''P001''
        (ex_patient ''P002'' tiny 70) =
      (Inl ZeroDivisionError, Some [(''P001'', [(''name'', JStr ''Old'')])])"
proof -
  let ?f = "Some [(''P001'', [(''name'', JStr ''Old'')])]"
  have u: "update_patient ex_lib ?f ''P001'' (ex_patient ''P002'' 160 56) =
      (Inr [(''message'', JStr ''Patient updated successfully'')],
       Some [(''P001'', ex_stored 160 56 (6155857740662047 / 281474976710656) ''Normal'')])"
    using ex_dump_exclude [OF bmi_ex_160_56 verdict_ex(10), of "''P002''"]
    by (simp add: update_patient_def load_data_def save_data_def has_key_def)
  then have s: "fst (update_patient ex_lib ?f ''P001'' (ex_patient ''P002'' 160 56)) =
      Inr [(''message'', JStr ''Patient updated successfully'')]"
    by simp
  have n: "patient_id (ex_patient ''P002'' 160 56) \<noteq> ''P001''"
    by (simp add: ex_fields)
  have o: "map_of (load_data ?f) (patient_id (ex_patient ''P002'' 160 56)) = None"
    "map fst (load_data ?f) = [''P001'']"
    by (simp_all add: load_data_def ex_fields)
  from update_stores_under_path_id [OF s] n o
  have m: "map_of (load_data (snd (update_patient ex_lib ?f ''P001'' (ex_patient ''P002'' 160 56))))
        (patient_id (ex_patient ''P002'' 160 56)) = None"
    "map fst (load_data (snd (update_patient ex_lib ?f ''P001'' (ex_patient ''P002'' 160 56)))) =
        [''P001'']"
    by simp_all
  have t: "update_patient ex_lib ?f ''P001'' (ex_patient ''P002'' tiny 70) = (Inl ZeroDivisionError, ?f)"
    by (simp add: update_patient_def load_data_def has_key_def
        model_dump_exclude_raises [OF bmi_ex_tiny])
  from u n m t show ?thesis
    unfolding ex_fields by blast
qed

end
